theory Spec2Isabelle
  imports Main "HOL-Library.Word"
begin

section \<open>JavaScript strings and values\<close>

text \<open>
  A JavaScript string is a sequence of UTF-16 code units. None of the regular expressions
  of the library carries the \<open>u\<close> flag, so \<open>replace\<close>, \<open>test\<close> and \<open>split\<close> all work
  code unit by code unit.
\<close>

type_synonym jsstring = "16 word list"

text \<open>An ASCII literal of the source, as code units.\<close>

definition str :: "string \<Rightarrow> jsstring" where
  "str s = map of_char s"

text \<open>
  The values that reach the content-type computation at run time. \<open>mimeTypes[ext]\<close> is a
  property read on a plain object literal: a key that is not an own property is looked up
  on \<open>Object.prototype\<close>, whose members are built-in functions and, under the key
  \<open>__proto__\<close>, \<open>Object.prototype\<close> itself.
\<close>

datatype jsvalue =
    Undefined
  | JString jsstring
  | BuiltinFunction string
  | ObjectPrototype

fun truthy :: "jsvalue \<Rightarrow> bool" where
  "truthy Undefined = False"
| "truthy (JString s) = (s \<noteq> [])"
| "truthy (BuiltinFunction f) = True"
| "truthy ObjectPrototype = True"

text \<open>\<open>a || b\<close>\<close>

definition js_or :: "jsvalue \<Rightarrow> jsvalue \<Rightarrow> jsvalue" where
  "js_or a b = (if truthy a then a else b)"

text \<open>\<open>String(v)\<close>, the coercion \<open>RegExp.prototype.test\<close> applies to its argument.\<close>

fun ToString :: "jsvalue \<Rightarrow> jsstring" where
  "ToString Undefined = str ''undefined''"
| "ToString (JString s) = s"
| "ToString (BuiltinFunction f) = str (''function '' @ f @ ''() { [native code] }'')"
| "ToString ObjectPrototype = str ''[object Object]''"

text \<open>\<open>Number.prototype.toString()\<close> on a non-negative integer below \<open>10^21\<close> (a file size).\<close>

function toString_nat :: "nat \<Rightarrow> jsstring" where
  "toString_nat n =
     (if n < 10 then [0x30 + of_nat n]
      else toString_nat (n div 10) @ [0x30 + of_nat (n mod 10)])"
  by pat_completeness auto
termination
  by (relation "measure (\<lambda>n. n)") auto

declare toString_nat.simps [simp del]

subsection \<open>The regular expressions of the library\<close>

text \<open>
  The patterns used are sequences of literal characters and the wildcard \<open>.\<close>, anchored at
  the start of the input and open at the end, under an alternation. \<open>.\<close> matches any code
  unit but a line terminator.
\<close>

datatype atom = Lit "16 word" | Dot

definition isLineTerminator :: "16 word \<Rightarrow> bool" where
  "isLineTerminator c = (c = 0x0A \<or> c = 0x0D \<or> c = 0x2028 \<or> c = 0x2029)"

text \<open>The source text of a pattern without escapes: \<open>.\<close> is the wildcard.\<close>

definition rx :: "string \<Rightarrow> atom list" where
  "rx s = map (\<lambda>c. if c = CHR ''.'' then Dot else Lit (of_char c)) s"

text \<open>Does the atom sequence match a prefix of the input?\<close>

fun match_atoms :: "atom list \<Rightarrow> jsstring \<Rightarrow> bool" where
  "match_atoms [] s = True"
| "match_atoms (a # as) [] = False"
| "match_atoms (Lit x # as) (c # cs) = (x = c \<and> match_atoms as cs)"
| "match_atoms (Dot # as) (c # cs) = (\<not> isLineTerminator c \<and> match_atoms as cs)"

text \<open>\<open>/^head(alt1|alt2|...)/.test(s)\<close>\<close>

definition test_alternatives :: "atom list \<Rightarrow> atom list list \<Rightarrow> jsstring \<Rightarrow> bool" where
  "test_alternatives head alts s = list_ex (\<lambda>alt. match_atoms (head @ alt) s) alts"

text \<open>The class \<open>\s\<close>: white space and line terminators of ECMAScript.\<close>

definition isWhitespace :: "16 word \<Rightarrow> bool" where
  "isWhitespace c =
     (c = 0x09 \<or> c = 0x0A \<or> c = 0x0B \<or> c = 0x0C \<or> c = 0x0D \<or> c = 0x20 \<or> c = 0xA0
      \<or> c = 0x1680 \<or> (0x2000 \<le> c \<and> c \<le> 0x200A) \<or> c = 0x2028 \<or> c = 0x2029
      \<or> c = 0x202F \<or> c = 0x205F \<or> c = 0x3000 \<or> c = 0xFEFF)"

text \<open>\<open>s.replace(/[class]/g, '_')\<close> for a character class given as a predicate.\<close>

definition replace_class :: "(16 word \<Rightarrow> bool) \<Rightarrow> jsstring \<Rightarrow> jsstring" where
  "replace_class cls s = map (\<lambda>c. if cls c then 0x5F else c) s"

section \<open>utils.ts\<close>

text \<open>
  The functions of \<open>lib/utils.ts\<close>. \<open>providers/s3.ts\<close> imports functions of the same
  names from \<open>core/utils\<close>; they are taken to be these.

  \<open>generateUniqueId\<close> reads the clock and the random number generator. The two strings
  \<open>Date.now().toString(36)\<close> and \<open>Math.random().toString(36)\<close> of a call are inputs of
  the model.
\<close>

record id_source =
  dateNowBase36 :: jsstring
  mathRandomBase36 :: jsstring

definition generateUniqueId :: "id_source \<Rightarrow> jsstring" where
  "generateUniqueId src = dateNowBase36 src @ drop 2 (mathRandomBase36 src)"

text \<open>The class \<open>[^\x20-\x7E]\<close>\<close>

definition outsidePrintableAscii :: "16 word \<Rightarrow> bool" where
  "outsidePrintableAscii c = (\<not> (0x20 \<le> c \<and> c \<le> 0x7E))"

text \<open>The class \<open>[&/\\#,+()$~%'":*?<>{}]\<close>\<close>

definition denylist :: "16 word list" where
  "denylist =
     [0x26, 0x2F, 0x5C, 0x23, 0x2C, 0x2B, 0x28, 0x29, 0x24, 0x7E, 0x25, 0x27, 0x22, 0x3A,
      0x2A, 0x3F, 0x3C, 0x3E, 0x7B, 0x7D]"

definition isDangerous :: "16 word \<Rightarrow> bool" where
  "isDangerous c = (c \<in> set denylist)"

definition sanitizeFileName :: "jsstring \<Rightarrow> jsstring" where
  "sanitizeFileName fileName =
     replace_class isDangerous
       (replace_class outsidePrintableAscii
         (replace_class isWhitespace fileName))"

text \<open>What the three replacements do to one code unit.\<close>

definition sanitize_unit :: "16 word \<Rightarrow> 16 word" where
  "sanitize_unit c =
     (let c1 = (if isWhitespace c then 0x5F else c);
          c2 = (if outsidePrintableAscii c1 then 0x5F else c1)
      in if isDangerous c2 then 0x5F else c2)"

datatype FolderPath = DEFAULT | IMAGES | DOCUMENTS | VIDEOS

fun FolderPath_value :: "FolderPath \<Rightarrow> jsstring" where
  "FolderPath_value DEFAULT = str ''files/''"
| "FolderPath_value IMAGES = str ''images/''"
| "FolderPath_value DOCUMENTS = str ''documents/''"
| "FolderPath_value VIDEOS = str ''videos/''"

text \<open>\<open>/^image\/(jpeg|png|gif|webp|tiff)/\<close>\<close>

definition image_regex :: "jsstring \<Rightarrow> bool" where
  "image_regex =
     test_alternatives (rx ''image/'')
       [rx ''jpeg'', rx ''png'', rx ''gif'', rx ''webp'', rx ''tiff'']"

text \<open>\<open>/^video\//\<close>\<close>

definition video_regex :: "jsstring \<Rightarrow> bool" where
  "video_regex = match_atoms (rx ''video/'')"

text \<open>
  \<open>/^application\/(pdf|msword|vnd.openxmlformats-officedocument|vnd.ms-excel|vnd.ms-powerpoint)/\<close>;
  the dots are not escaped in the source, so they are wildcards.
\<close>

definition document_regex :: "jsstring \<Rightarrow> bool" where
  "document_regex =
     test_alternatives (rx ''application/'')
       [rx ''pdf'', rx ''msword'', rx ''vnd.openxmlformats-officedocument'',
        rx ''vnd.ms-excel'', rx ''vnd.ms-powerpoint'']"

definition getDestinationFolder :: "jsstring \<Rightarrow> FolderPath" where
  "getDestinationFolder mimeType =
     (if image_regex mimeType then IMAGES
      else if video_regex mimeType \<or> mimeType = str ''image/gif'' then VIDEOS
      else if document_regex mimeType \<or> mimeType = str ''text/plain'' then DOCUMENTS
      else DEFAULT)"

text \<open>\<open>s.split(sep)\<close> for a separator of one code unit: never the empty array.\<close>

fun split :: "16 word \<Rightarrow> jsstring \<Rightarrow> jsstring list" where
  "split sep [] = [[]]"
| "split sep (c # cs) =
     (if c = sep then [] # split sep cs
      else (case split sep cs of
              [] \<Rightarrow> [[c]]
            | p # ps \<Rightarrow> (c # p) # ps))"

text \<open>\<open>a.pop()\<close>, of which only the value is used: \<open>undefined\<close> on the empty array.\<close>

definition pop :: "'a list \<Rightarrow> 'a option" where
  "pop xs = (if xs = [] then None else Some (last xs))"

text \<open>
  \<open>String.prototype.toLowerCase\<close> follows the Unicode case mappings; it is a parameter
  \<open>lc\<close> of everything that reads a file extension. \<open>toLowerCase_ascii\<close> is its
  restriction to ASCII input, on which it only moves \<open>A\<close>-\<open>Z\<close> to \<open>a\<close>-\<open>z\<close>.
\<close>

definition toLowerCase_ascii :: "jsstring \<Rightarrow> jsstring" where
  "toLowerCase_ascii s = map (\<lambda>c. if 0x41 \<le> c \<and> c \<le> 0x5A then c + 0x20 else c) s"

text \<open>\<open>fileName.split('.').pop()?.toLowerCase() || ''\<close>\<close>

definition getFileExtension :: "(jsstring \<Rightarrow> jsstring) \<Rightarrow> jsstring \<Rightarrow> jsstring" where
  "getFileExtension lc fileName =
     (case map_option lc (pop (split 0x2E fileName)) of
        None \<Rightarrow> []
      | Some e \<Rightarrow> if e \<noteq> [] then e else [])"

definition mimeTypes :: "(string \<times> string) list" where
  "mimeTypes =
     [(''jpg'', ''image/jpeg''),
      (''jpeg'', ''image/jpeg''),
      (''png'', ''image/png''),
      (''gif'', ''image/gif''),
      (''webp'', ''image/webp''),
      (''pdf'', ''application/pdf''),
      (''doc'', ''application/msword''),
      (''docx'', ''application/vnd.openxmlformats-officedocument.wordprocessingml.document''),
      (''xls'', ''application/vnd.ms-excel''),
      (''xlsx'', ''application/vnd.openxmlformats-officedocument.spreadsheetml.sheet''),
      (''ppt'', ''application/vnd.ms-powerpoint''),
      (''pptx'', ''application/vnd.openxmlformats-officedocument.presentationml.presentation''),
      (''mp4'', ''video/mp4''),
      (''mov'', ''video/quicktime''),
      (''avi'', ''video/x-msvideo''),
      (''txt'', ''text/plain''),
      (''csv'', ''text/csv'')]"

text \<open>
  The members every object literal inherits from \<open>Object.prototype\<close>; \<open>constructor\<close> is
  the function \<open>Object\<close>.
\<close>

definition Object_prototype_methods :: "(string \<times> string) list" where
  "Object_prototype_methods =
     [(''constructor'', ''Object''),
      (''hasOwnProperty'', ''hasOwnProperty''),
      (''isPrototypeOf'', ''isPrototypeOf''),
      (''propertyIsEnumerable'', ''propertyIsEnumerable''),
      (''toLocaleString'', ''toLocaleString''),
      (''toString'', ''toString''),
      (''valueOf'', ''valueOf''),
      (''__defineGetter__'', ''__defineGetter__''),
      (''__defineSetter__'', ''__defineSetter__''),
      (''__lookupGetter__'', ''__lookupGetter__''),
      (''__lookupSetter__'', ''__lookupSetter__'')]"

text \<open>The first entry of a table of ASCII literals whose key is the given string.\<close>

fun lookup :: "(string \<times> string) list \<Rightarrow> jsstring \<Rightarrow> string option" where
  "lookup [] key = None"
| "lookup ((k, v) # kvs) key = (if str k = key then Some v else lookup kvs key)"

text \<open>\<open>obj[key]\<close> on an object literal with the given own properties.\<close>

definition get_property :: "(string \<times> string) list \<Rightarrow> jsstring \<Rightarrow> jsvalue" where
  "get_property own key =
     (case lookup own key of
        Some v \<Rightarrow> JString (str v)
      | None \<Rightarrow>
          (case lookup Object_prototype_methods key of
             Some f \<Rightarrow> BuiltinFunction f
           | None \<Rightarrow> if key = str ''__proto__'' then ObjectPrototype else Undefined))"

definition guessMimeType :: "(jsstring \<Rightarrow> jsstring) \<Rightarrow> jsstring \<Rightarrow> jsvalue" where
  "guessMimeType lc fileName =
     (let ext = getFileExtension lc fileName
      in js_or (get_property mimeTypes ext) (JString (str ''application/octet-stream'')))"

section \<open>types/index.ts\<close>

datatype UploadStatus = QUEUED | UPLOADING | PROCESSING | COMPLETED | FAILED | CANCELLED

record S3Config =
  accessKeyId :: jsstring
  secretAccessKey :: jsstring
  region :: jsstring
  bucket :: jsstring

text \<open>
  The tag \<open>type\<close> is kept as the string it is at run time, so that the \<open>default\<close> branch
  of the facade's \<open>switch\<close> is a branch of the model. An optional field that is omitted
  is \<open>None\<close>.
\<close>

record StorageConfig =
  type :: jsstring
  maxConcurrentUploads :: "nat option"
  defaultMimeType :: "jsstring option"

record S3StorageConfig = StorageConfig +
  s3 :: S3Config

type_synonym UpliftyConfig = S3StorageConfig

definition StorageType_S3 :: jsstring where
  "StorageType_S3 = str ''s3''"

text \<open>
  The \<open>progress\<close> of an event is a literal of the source (\<open>0\<close>, \<open>100\<close>) or the value of
  \<open>Math.round((progress.loaded / progress.total) * 100)\<close>. The latter is double-precision
  arithmetic (with \<open>NaN\<close> and \<open>Infinity\<close> on a zero or missing total) and is kept as the
  expression over the two byte counts.
\<close>

datatype jsnumber = Num int | RoundPercent "nat option" "nat option"

record ProgressEvent =
  fileId :: jsstring
  fileName :: jsstring
  progress :: jsnumber
  status :: UploadStatus
  error :: "jsstring option"
  url :: "jsstring option"

text \<open>
  The \<open>File\<close> of the browser, as far as the library reads it. The fields \<open>size'\<close>,
  \<open>id'\<close> and \<open>file'\<close> are \<open>size\<close>, \<open>id\<close> and \<open>file\<close> of the source.
\<close>

record File =
  name :: jsstring
  type :: jsstring
  size' :: nat

record FileToUpload =
  file' :: File
  id' :: "jsstring option"
  path :: "jsstring option"
  metadata :: "(jsstring \<rightharpoonup> jsstring) option"

text \<open>
  \<open>'cb\<close> is the type of progress callbacks. The field \<open>metadata\<close> is the one that
  \<open>providers/s3\<close> reads from its options; \<open>lib/s3Provider\<close> does not read it and takes
  the metadata from the \<open>FileToUpload\<close>.
\<close>

record 'cb UploadOptions =
  onProgress :: "'cb option"
  folder :: "jsstring option"
  generateId :: "bool option"
  metadata :: "(jsstring \<rightharpoonup> jsstring) option"

record UploadResult =
  fileId :: jsstring
  fileName :: jsstring
  url :: jsstring
  size' :: nat
  mimeType :: jsvalue
  metadata :: "(jsstring \<rightharpoonup> jsstring) option"

section \<open>The storage backend and the event loop\<close>

text \<open>
  What is thrown or rejected: an \<open>Error\<close> with its message, or any other value (given by
  a description).
\<close>

datatype thrown = ErrorInstance jsstring | OtherThrown jsstring

text \<open>A progress report of the SDK; either count may be missing.\<close>

record Progress =
  loaded :: "nat option"
  total :: "nat option"

record upload_params =
  Bucket :: jsstring
  Key :: jsstring
  Body :: File
  ContentType :: jsvalue
  Metadata :: "jsstring \<rightharpoonup> jsvalue"

text \<open>
  One transfer of the SDK: the progress reports it fires, in order, the time at which its
  promise settles, and how it settles (rejected, or fulfilled with the \<open>Location\<close> if the
  backend reports one).
\<close>

record transfer =
  reports :: "Progress list"
  finishedAt :: nat
  completion :: "thrown + jsstring option"

text \<open>What one call of \<open>upload\<close> reads from outside: the clock and random generator, and the SDK.\<close>

record upload_env =
  ids :: id_source
  backend :: "upload_params \<Rightarrow> transfer"

text \<open>
  What one call of \<open>upload\<close> does: the timers it sets (each will call the callback with
  the event, in this order), when its promise settles, and with what.
\<close>

record 'cb upload_run =
  timers :: "('cb \<times> ProgressEvent) list"
  settledAt :: nat
  outcome :: "thrown + UploadResult"

text \<open>
  \<open>Promise.all\<close>: rejected with the reason of the promise that rejects first, otherwise
  fulfilled with all the values in the order of the input.
\<close>

fun earliest_rejection :: "(nat \<times> (thrown + 'a)) list \<Rightarrow> (nat \<times> thrown) option" where
  "earliest_rejection [] = None"
| "earliest_rejection ((t, Inr v) # ps) = earliest_rejection ps"
| "earliest_rejection ((t, Inl e) # ps) =
     (case earliest_rejection ps of
        None \<Rightarrow> Some (t, e)
      | Some (t', e') \<Rightarrow> if t' < t then Some (t', e') else Some (t, e))"

fun fulfilled_values :: "(nat \<times> (thrown + 'a)) list \<Rightarrow> 'a list" where
  "fulfilled_values [] = []"
| "fulfilled_values ((t, Inr v) # ps) = v # fulfilled_values ps"
| "fulfilled_values ((t, Inl e) # ps) = fulfilled_values ps"

definition Promise_all :: "(nat \<times> (thrown + 'a)) list \<Rightarrow> thrown + 'a list" where
  "Promise_all ps =
     (case earliest_rejection ps of
        Some (t, e) \<Rightarrow> Inl e
      | None \<Rightarrow> Inr (fulfilled_values ps))"

section \<open>providers/s3.ts\<close>

text \<open>The provider holds its configuration and the SDK client, which is outside the model.\<close>

record S3StorageProvider =
  config :: S3StorageConfig

text \<open>\<open>{maxConcurrentUploads: 10, defaultMimeType: 'application/octet-stream', ...config}\<close>\<close>

definition S3StorageProvider_new :: "S3StorageConfig \<Rightarrow> S3StorageProvider" where
  "S3StorageProvider_new cfg =
     \<lparr>config = cfg
        \<lparr>maxConcurrentUploads :=
           (case maxConcurrentUploads cfg of None \<Rightarrow> Some 10 | Some n \<Rightarrow> Some n),
         defaultMimeType :=
           (case defaultMimeType cfg of
              None \<Rightarrow> Some (str ''application/octet-stream'')
            | Some t \<Rightarrow> Some t)\<rparr>\<rparr>"

definition constructS3Url :: "S3StorageProvider \<Rightarrow> jsstring \<Rightarrow> jsstring" where
  "constructS3Url this filePath =
     str ''https://'' @ bucket (s3 (config this)) @ str ''.s3.'' @ region (s3 (config this))
       @ str ''.amazonaws.com/'' @ filePath"

definition endsWith_slash :: "jsstring \<Rightarrow> bool" where
  "endsWith_slash s = (s \<noteq> [] \<and> last s = 0x2F)"

text \<open>
  \<open>getDestinationFolder\<close> is handed what \<open>file.type || guessMimeType(file.name)\<close> yields.
  Its patterns test the value coerced to a string; a value that is not a string is equal
  to neither of the two literals it is compared with, and nor is its coercion.
\<close>

definition getFilePath :: "(jsstring \<Rightarrow> jsstring) \<Rightarrow> File \<Rightarrow> jsstring option \<Rightarrow> jsstring" where
  "getFilePath lc file folder' =
     (let classified =
            (let destinationFolder =
                   getDestinationFolder
                     (ToString (js_or (JString (File.type file)) (guessMimeType lc (name file))))
             in FolderPath_value destinationFolder @ sanitizeFileName (name file))
      in case folder' of
           None \<Rightarrow> classified
         | Some f \<Rightarrow>
             if f \<noteq> [] then
               (let normalizedFolder = (if endsWith_slash f then f else f @ str ''/'')
                in normalizedFolder @ sanitizeFileName (name file))
             else classified)"

text \<open>\<open>setTimeout(() => callback(progress), 0)\<close>\<close>

definition notifyProgress :: "'cb \<Rightarrow> ProgressEvent \<Rightarrow> ('cb \<times> ProgressEvent) list" where
  "notifyProgress callback event = [(callback, event)]"

text \<open>
  \<open>file.type || guessMimeType(file.name) || this.config.defaultMimeType || 'application/octet-stream'\<close>
\<close>

definition contentType_of :: "(jsstring \<Rightarrow> jsstring) \<Rightarrow> S3StorageProvider \<Rightarrow> File \<Rightarrow> jsvalue" where
  "contentType_of lc this file =
     js_or
       (js_or
         (js_or (JString (File.type file)) (guessMimeType lc (name file)))
         (case defaultMimeType (config this) of None \<Rightarrow> Undefined | Some t \<Rightarrow> JString t))
       (JString (str ''application/octet-stream''))"

text \<open>Truthiness of a byte count that may be missing.\<close>

definition truthy_count :: "nat option \<Rightarrow> bool" where
  "truthy_count n = (case n of None \<Rightarrow> False | Some k \<Rightarrow> k \<noteq> 0)"

text \<open>The listener on \<open>httpUploadProgress\<close>, with its guard.\<close>

definition on_httpUploadProgress ::
  "'cb \<Rightarrow> jsstring \<Rightarrow> File \<Rightarrow> Progress \<Rightarrow> ('cb \<times> ProgressEvent) list" where
  "on_httpUploadProgress callback fid file p =
     (if truthy_count (loaded p) \<and> truthy_count (total p) then
        (let percent = RoundPercent (loaded p) (total p)
         in notifyProgress callback
              \<lparr>ProgressEvent.fileId = fid, ProgressEvent.fileName = name file, progress = percent, status = UPLOADING,
               error = None, ProgressEvent.url = None\<rparr>)
      else [])"

text \<open>\<open>error instanceof Error ? error.message : 'Upload failed'\<close>\<close>

definition error_text :: "thrown \<Rightarrow> jsstring" where
  "error_text e = (case e of ErrorInstance message \<Rightarrow> message | OtherThrown v \<Rightarrow> str ''Upload failed'')"

text \<open>\<open>a || b\<close> where \<open>a\<close> is an optional string and \<open>b\<close> a string.\<close>

definition string_or :: "jsstring option \<Rightarrow> jsstring \<Rightarrow> jsstring" where
  "string_or a b = (case a of None \<Rightarrow> b | Some s \<Rightarrow> if s \<noteq> [] then s else b)"

text \<open>\<open>options || {}\<close>\<close>

definition no_options :: "'cb UploadOptions" where
  "no_options = \<lparr>onProgress = None, folder = None, generateId = None, UploadOptions.metadata = None\<rparr>"

definition options_or_empty :: "'cb UploadOptions option \<Rightarrow> 'cb UploadOptions" where
  "options_or_empty options = (case options of None \<Rightarrow> no_options | Some given \<Rightarrow> given)"

text \<open>A destructuring default: \<open>generateId = true\<close>, \<open>metadata = {}\<close>.\<close>

definition with_default :: "'a \<Rightarrow> 'a option \<Rightarrow> 'a" where
  "with_default d v = (case v of None \<Rightarrow> d | Some x \<Rightarrow> x)"

text \<open>An object literal, and the spread of the caller's metadata at its end.\<close>

definition object_literal :: "(string \<times> jsvalue) list \<Rightarrow> (jsstring \<rightharpoonup> jsvalue)" where
  "object_literal kvs = map_of (rev (map (\<lambda>(k, v). (str k, v)) kvs))"

definition spread :: "(jsstring \<rightharpoonup> jsvalue) \<Rightarrow> (jsstring \<rightharpoonup> jsstring) \<Rightarrow> (jsstring \<rightharpoonup> jsvalue)" where
  "spread obj m = obj ++ (\<lambda>k. map_option JString (m k))"

text \<open>\<open>shouldGenerateId ? generateUniqueId() : file.name\<close>\<close>

definition resolve_fileId :: "File \<Rightarrow> 'cb UploadOptions option \<Rightarrow> upload_env \<Rightarrow> jsstring" where
  "resolve_fileId file options env =
     (let shouldGenerateId = with_default True (generateId (options_or_empty options))
      in if shouldGenerateId then generateUniqueId (ids env) else name file)"

text \<open>The \<open>params\<close> handed to the SDK's \<open>Upload\<close>.\<close>

definition upload_request ::
  "(jsstring \<Rightarrow> jsstring) \<Rightarrow> S3StorageProvider \<Rightarrow> File \<Rightarrow> 'cb UploadOptions option \<Rightarrow> upload_env
     \<Rightarrow> upload_params" where
  "upload_request lc this file options env =
     (let meta = with_default Map.empty (UploadOptions.metadata (options_or_empty options));
          fid = resolve_fileId file options env;
          filePath = getFilePath lc file (folder (options_or_empty options));
          contentType = contentType_of lc this file
      in \<lparr>Bucket = bucket (s3 (config this)),
          Key = filePath,
          Body = file,
          ContentType = contentType,
          Metadata =
            spread
              (object_literal
                 [(''content-type'', contentType),
                  (''file-id'', JString fid),
                  (''storage-path'', JString filePath),
                  (''file-type'', contentType),
                  (''size'', JString (toString_nat (File.size' file))),
                  (''name'', JString (sanitizeFileName (name file)))])
              meta\<rparr>)"

text \<open>
  \<open>upload\<close>: the initial event, the transfer with its listener, then the completion or the
  failure. Without a callback no timer is set.
\<close>

definition S3StorageProvider_upload ::
  "(jsstring \<Rightarrow> jsstring) \<Rightarrow> S3StorageProvider \<Rightarrow> File \<Rightarrow> 'cb UploadOptions option \<Rightarrow> upload_env
     \<Rightarrow> 'cb upload_run" where
  "S3StorageProvider_upload lc this file options env =
     (let opts = options_or_empty options;
          meta = with_default Map.empty (UploadOptions.metadata opts);
          fid = resolve_fileId file options env;
          filePath = getFilePath lc file (folder opts);
          contentType = contentType_of lc this file;
          initial =
            (case onProgress opts of
               None \<Rightarrow> []
             | Some callback \<Rightarrow>
                 notifyProgress callback
                   \<lparr>ProgressEvent.fileId = fid, ProgressEvent.fileName = name file,
                    progress = Num 0, status = UPLOADING, error = None,
                    ProgressEvent.url = None\<rparr>);
          t = backend env (upload_request lc this file options env);
          reported =
            (case onProgress opts of
               None \<Rightarrow> []
             | Some callback \<Rightarrow> concat (map (on_httpUploadProgress callback fid file) (reports t)))
      in case completion t of
           Inr location \<Rightarrow>
             (let link = string_or location (constructS3Url this filePath);
                  completed =
                    (case onProgress opts of
                       None \<Rightarrow> []
                     | Some callback \<Rightarrow>
                         notifyProgress callback
                           \<lparr>ProgressEvent.fileId = fid, ProgressEvent.fileName = name file,
                            progress = Num 100, status = COMPLETED, error = None,
                            ProgressEvent.url = Some link\<rparr>)
              in \<lparr>timers = initial @ reported @ completed,
                  settledAt = finishedAt t,
                  outcome =
                    Inr \<lparr>fileId = fid, fileName = name file, url = link,
                         size' = File.size' file, mimeType = contentType,
                         metadata = Some meta\<rparr>\<rparr>)
         | Inl err \<Rightarrow>
             (let failed =
                    (case onProgress opts of
                       None \<Rightarrow> []
                     | Some callback \<Rightarrow>
                         notifyProgress callback
                           \<lparr>ProgressEvent.fileId = fid, ProgressEvent.fileName = name file,
                            progress = Num 0, status = FAILED, error = Some (error_text err),
                            ProgressEvent.url = None\<rparr>)
              in \<lparr>timers = initial @ reported @ failed,
                  settledAt = finishedAt t,
                  outcome = Inl err\<rparr>))"

section \<open>lib/s3Provider.ts\<close>

text \<open>
  The older provider takes a \<open>FileToUpload\<close>, which may carry an id, a path and the
  metadata. Its listener has no guard.
\<close>

definition lib_on_httpUploadProgress ::
  "'cb \<Rightarrow> jsstring \<Rightarrow> File \<Rightarrow> Progress \<Rightarrow> ('cb \<times> ProgressEvent) list" where
  "lib_on_httpUploadProgress callback fid file p =
     (let percent = RoundPercent (loaded p) (total p)
      in notifyProgress callback
           \<lparr>ProgressEvent.fileId = fid, ProgressEvent.fileName = name file,
            progress = percent, status = UPLOADING, error = None,
            ProgressEvent.url = None\<rparr>)"

text \<open>\<open>id || (generateId ? generateUniqueId() : file.name)\<close>\<close>

definition lib_resolve_fileId :: "FileToUpload \<Rightarrow> 'cb UploadOptions option \<Rightarrow> upload_env \<Rightarrow> jsstring" where
  "lib_resolve_fileId fileToUpload options env =
     (let generate = with_default True (generateId (options_or_empty options))
      in string_or (id' fileToUpload)
           (if generate then generateUniqueId (ids env) else name (file' fileToUpload)))"

text \<open>\<open>path || this.getFilePath(file, folder)\<close>\<close>

definition lib_resolve_filePath ::
  "(jsstring \<Rightarrow> jsstring) \<Rightarrow> FileToUpload \<Rightarrow> 'cb UploadOptions option \<Rightarrow> jsstring" where
  "lib_resolve_filePath lc fileToUpload options =
     string_or (path fileToUpload)
       (getFilePath lc (file' fileToUpload) (folder (options_or_empty options)))"

definition lib_upload_request ::
  "(jsstring \<Rightarrow> jsstring) \<Rightarrow> S3StorageProvider \<Rightarrow> FileToUpload \<Rightarrow> 'cb UploadOptions option
     \<Rightarrow> upload_env \<Rightarrow> upload_params" where
  "lib_upload_request lc this fileToUpload options env =
     (let file = file' fileToUpload;
          meta = with_default Map.empty (FileToUpload.metadata fileToUpload);
          fid = lib_resolve_fileId fileToUpload options env;
          filePath = lib_resolve_filePath lc fileToUpload options;
          contentType = contentType_of lc this file
      in \<lparr>Bucket = bucket (s3 (config this)),
          Key = filePath,
          Body = file,
          ContentType = contentType,
          Metadata =
            spread
              (object_literal
                 [(''Content-Type'', contentType),
                  (''fileId'', JString fid),
                  (''storagePath'', JString filePath),
                  (''fileType'', contentType),
                  (''size'', JString (toString_nat (File.size' file))),
                  (''name'', JString (sanitizeFileName (name file)))])
              meta\<rparr>)"

definition lib_S3StorageProvider_upload ::
  "(jsstring \<Rightarrow> jsstring) \<Rightarrow> S3StorageProvider \<Rightarrow> FileToUpload \<Rightarrow> 'cb UploadOptions option
     \<Rightarrow> upload_env \<Rightarrow> 'cb upload_run" where
  "lib_S3StorageProvider_upload lc this fileToUpload options env =
     (let file = file' fileToUpload;
          meta = with_default Map.empty (FileToUpload.metadata fileToUpload);
          opts = options_or_empty options;
          fid = lib_resolve_fileId fileToUpload options env;
          filePath = lib_resolve_filePath lc fileToUpload options;
          contentType = contentType_of lc this file;
          initial =
            (case onProgress opts of
               None \<Rightarrow> []
             | Some callback \<Rightarrow>
                 notifyProgress callback
                   \<lparr>ProgressEvent.fileId = fid, ProgressEvent.fileName = name file,
                    progress = Num 0, status = UPLOADING, error = None,
                    ProgressEvent.url = None\<rparr>);
          t = backend env (lib_upload_request lc this fileToUpload options env);
          reported =
            (case onProgress opts of
               None \<Rightarrow> []
             | Some callback \<Rightarrow>
                 concat (map (lib_on_httpUploadProgress callback fid file) (reports t)))
      in case completion t of
           Inr location \<Rightarrow>
             (let link = string_or location (constructS3Url this filePath);
                  completed =
                    (case onProgress opts of
                       None \<Rightarrow> []
                     | Some callback \<Rightarrow>
                         notifyProgress callback
                           \<lparr>ProgressEvent.fileId = fid, ProgressEvent.fileName = name file,
                            progress = Num 100, status = COMPLETED, error = None,
                            ProgressEvent.url = Some link\<rparr>)
              in \<lparr>timers = initial @ reported @ completed,
                  settledAt = finishedAt t,
                  outcome =
                    Inr \<lparr>fileId = fid, fileName = name file, url = link,
                         size' = File.size' file, mimeType = contentType,
                         metadata = Some meta\<rparr>\<rparr>)
         | Inl err \<Rightarrow>
             (let failed =
                    (case onProgress opts of
                       None \<Rightarrow> []
                     | Some callback \<Rightarrow>
                         notifyProgress callback
                           \<lparr>ProgressEvent.fileId = fid, ProgressEvent.fileName = name file,
                            progress = Num 0, status = FAILED, error = Some (error_text err),
                            ProgressEvent.url = None\<rparr>)
              in \<lparr>timers = initial @ reported @ failed,
                  settledAt = finishedAt t,
                  outcome = Inl err\<rparr>))"

section \<open>The facade: core/uplifty.ts and lib/uplifty.ts\<close>

record Uplifty =
  storageProvider :: "S3StorageProvider option"
  config :: UpliftyConfig

definition initializeProvider :: "Uplifty \<Rightarrow> thrown + Uplifty" where
  "initializeProvider this =
     (if StorageConfig.type (Uplifty.config this) = StorageType_S3 then
        Inr (this\<lparr>storageProvider := Some (S3StorageProvider_new (Uplifty.config this))\<rparr>)
      else
        Inl (ErrorInstance
               (str ''Storage type '' @ [0x22] @ StorageConfig.type (Uplifty.config this)
                  @ [0x22] @ str '' is not supported'')))"

text \<open>The constructor: a facade, or the error thrown.\<close>

definition Uplifty_new :: "UpliftyConfig \<Rightarrow> thrown + Uplifty" where
  "Uplifty_new cfg = initializeProvider \<lparr>storageProvider = None, Uplifty.config = cfg\<rparr>"

definition getConfig :: "Uplifty \<Rightarrow> UpliftyConfig" where
  "getConfig this = Uplifty.config this"

text \<open>
  A call on several files: the constituent calls, and how the promise of the whole settles.
  Each constituent call reads its own environment, given by its position.
\<close>

record 'cb aggregate_run =
  uploads :: "'cb upload_run list"
  result :: "thrown + UploadResult list"

definition settlements :: "'cb upload_run list \<Rightarrow> (nat \<times> (thrown + UploadResult)) list" where
  "settlements started = map (\<lambda>r. (settledAt r, outcome r)) started"

text \<open>\<open>core/uplifty.ts\<close>: \<open>upload(files, options)\<close>\<close>

definition Uplifty_upload ::
  "(jsstring \<Rightarrow> jsstring) \<Rightarrow> Uplifty \<Rightarrow> File list \<Rightarrow> 'cb UploadOptions option \<Rightarrow> (nat \<Rightarrow> upload_env)
     \<Rightarrow> 'cb aggregate_run" where
  "Uplifty_upload lc this files options envs =
     (case storageProvider this of
        None \<Rightarrow>
          \<lparr>uploads = [], result = Inl (ErrorInstance (str ''No storage provider initialized''))\<rparr>
      | Some provider \<Rightarrow>
          if length files = 0 then \<lparr>uploads = [], result = Inr []\<rparr>
          else
            (let started =
                   map (\<lambda>(i, file). S3StorageProvider_upload lc provider file options (envs i))
                     (enumerate 0 files)
             in \<lparr>uploads = started, result = Promise_all (settlements started)\<rparr>))"

text \<open>\<open>lib/uplifty.ts\<close>: \<open>uploadFile\<close>, \<open>upload\<close> and \<open>uploadMultiple\<close>\<close>

definition lib_Uplifty_uploadFile ::
  "(jsstring \<Rightarrow> jsstring) \<Rightarrow> Uplifty \<Rightarrow> FileToUpload \<Rightarrow> 'cb UploadOptions option \<Rightarrow> upload_env
     \<Rightarrow> 'cb upload_run" where
  "lib_Uplifty_uploadFile lc this fileToUpload options env =
     (case storageProvider this of
        None \<Rightarrow>
          \<lparr>timers = [], settledAt = 0,
           outcome = Inl (ErrorInstance (str ''No storage provider initialized''))\<rparr>
      | Some provider \<Rightarrow> lib_S3StorageProvider_upload lc provider fileToUpload options env)"

definition lib_Uplifty_upload ::
  "(jsstring \<Rightarrow> jsstring) \<Rightarrow> Uplifty \<Rightarrow> File \<Rightarrow> 'cb UploadOptions option \<Rightarrow> upload_env
     \<Rightarrow> 'cb upload_run" where
  "lib_Uplifty_upload lc this file options env =
     lib_Uplifty_uploadFile lc this
       \<lparr>file' = file, id' = None, path = None, FileToUpload.metadata = None\<rparr> options env"

definition lib_Uplifty_uploadMultiple ::
  "(jsstring \<Rightarrow> jsstring) \<Rightarrow> Uplifty \<Rightarrow> File list \<Rightarrow> 'cb UploadOptions option \<Rightarrow> (nat \<Rightarrow> upload_env)
     \<Rightarrow> 'cb aggregate_run" where
  "lib_Uplifty_uploadMultiple lc this files options envs =
     (let started =
            map (\<lambda>(i, file). lib_Uplifty_upload lc this file options (envs i)) (enumerate 0 files)
      in \<lparr>uploads = started, result = Promise_all (settlements started)\<rparr>)"

section \<open>Callbacks that run: the objects shared with the caller\<close>

text \<open>
  The definitions above record which callback calls are queued. A callback is the
  caller's code, and it runs from its timer while the transfer is still under way. It
  can reach three objects that the provider reads or hands out after the transfer: the
  \<open>s3\<close> object of the configuration (the spread in the constructor copies the reference,
  and \<open>constructS3Url\<close> reads \<open>bucket\<close> and \<open>region\<close> from it), the file (its \<open>name\<close> and
  \<open>size\<close> are read again for the final event and the result; the attributes are read-only,
  but the caller's code can shadow them on the object), and the metadata object, which the
  result refers to. The options and the \<open>FileToUpload\<close> are taken apart, and the id, the
  path and the content type computed, before the first timer can run.

  Here a callback is its effect on these three objects. The number \<open>early\<close> says how many
  of the queued calls have run when the promise of the transfer settles; the remaining
  ones, and the call for the final event, run later.
\<close>

record shared =
  s3_object :: S3Config
  file_object :: File
  metadata_object :: "jsstring \<rightharpoonup> jsstring"

type_synonym callback = "ProgressEvent \<Rightarrow> shared \<Rightarrow> shared"

text \<open>The three objects when \<open>upload\<close> is called.\<close>

definition shared_at_call ::
  "S3StorageProvider \<Rightarrow> File \<Rightarrow> (jsstring \<rightharpoonup> jsstring) option \<Rightarrow> shared" where
  "shared_at_call this file given =
     \<lparr>s3_object = s3 (S3StorageProvider.config this),
      file_object = file,
      metadata_object = with_default Map.empty given\<rparr>"

text \<open>The provider as it reads its configuration when the \<open>s3\<close> object is in the given state.\<close>

definition provider_at :: "S3StorageProvider \<Rightarrow> shared \<Rightarrow> S3StorageProvider" where
  "provider_at this s =
     this\<lparr>S3StorageProvider.config := (S3StorageProvider.config this)\<lparr>s3 := s3_object s\<rparr>\<rparr>"

text \<open>
  The metadata the result shows: the caller's object as it is now, or the fresh \<open>{}\<close> of
  the destructuring default, which no callback can reach.
\<close>

definition metadata_at :: "(jsstring \<rightharpoonup> jsstring) option \<Rightarrow> shared \<Rightarrow> (jsstring \<rightharpoonup> jsstring)" where
  "metadata_at given s = (case given of None \<Rightarrow> Map.empty | Some m \<Rightarrow> metadata_object s)"

text \<open>Running queued calls, in order.\<close>

definition fire :: "(callback \<times> ProgressEvent) list \<Rightarrow> shared \<Rightarrow> shared" where
  "fire ts s = fold (\<lambda>(callback, event). callback event) ts s"

text \<open>\<open>providers/s3.ts\<close>: \<open>upload\<close>, with the callbacks run.\<close>

definition S3StorageProvider_upload_shared ::
  "(jsstring \<Rightarrow> jsstring) \<Rightarrow> S3StorageProvider \<Rightarrow> File \<Rightarrow> callback UploadOptions option
     \<Rightarrow> upload_env \<Rightarrow> nat \<Rightarrow> callback upload_run" where
  "S3StorageProvider_upload_shared lc this file options env early =
     (let opts = options_or_empty options;
          fid = resolve_fileId file options env;
          filePath = getFilePath lc file (folder opts);
          contentType = contentType_of lc this file;
          initial =
            (case onProgress opts of
               None \<Rightarrow> []
             | Some callback \<Rightarrow>
                 notifyProgress callback
                   \<lparr>ProgressEvent.fileId = fid, ProgressEvent.fileName = name file,
                    progress = Num 0, status = UPLOADING, error = None,
                    ProgressEvent.url = None\<rparr>);
          t = backend env (upload_request lc this file options env);
          reported =
            (case onProgress opts of
               None \<Rightarrow> []
             | Some callback \<Rightarrow> concat (map (on_httpUploadProgress callback fid file) (reports t)));
          settled =
            fire (take early (initial @ reported))
              (shared_at_call this file (UploadOptions.metadata opts))
      in case completion t of
           Inr location \<Rightarrow>
             (let link = string_or location (constructS3Url (provider_at this settled) filePath);
                  completed =
                    (case onProgress opts of
                       None \<Rightarrow> []
                     | Some callback \<Rightarrow>
                         notifyProgress callback
                           \<lparr>ProgressEvent.fileId = fid,
                            ProgressEvent.fileName = name (file_object settled),
                            progress = Num 100, status = COMPLETED, error = None,
                            ProgressEvent.url = Some link\<rparr>)
              in \<lparr>timers = initial @ reported @ completed,
                  settledAt = finishedAt t,
                  outcome =
                    Inr \<lparr>fileId = fid, fileName = name (file_object settled), url = link,
                         size' = File.size' (file_object settled), mimeType = contentType,
                         metadata = Some (metadata_at (UploadOptions.metadata opts) settled)\<rparr>\<rparr>)
         | Inl err \<Rightarrow>
             (let failed =
                    (case onProgress opts of
                       None \<Rightarrow> []
                     | Some callback \<Rightarrow>
                         notifyProgress callback
                           \<lparr>ProgressEvent.fileId = fid,
                            ProgressEvent.fileName = name (file_object settled),
                            progress = Num 0, status = FAILED, error = Some (error_text err),
                            ProgressEvent.url = None\<rparr>)
              in \<lparr>timers = initial @ reported @ failed,
                  settledAt = finishedAt t,
                  outcome = Inl err\<rparr>))"

text \<open>\<open>lib/s3Provider.ts\<close>: \<open>upload\<close>, with the callbacks run.\<close>

definition lib_S3StorageProvider_upload_shared ::
  "(jsstring \<Rightarrow> jsstring) \<Rightarrow> S3StorageProvider \<Rightarrow> FileToUpload \<Rightarrow> callback UploadOptions option
     \<Rightarrow> upload_env \<Rightarrow> nat \<Rightarrow> callback upload_run" where
  "lib_S3StorageProvider_upload_shared lc this fileToUpload options env early =
     (let file = file' fileToUpload;
          opts = options_or_empty options;
          fid = lib_resolve_fileId fileToUpload options env;
          filePath = lib_resolve_filePath lc fileToUpload options;
          contentType = contentType_of lc this file;
          initial =
            (case onProgress opts of
               None \<Rightarrow> []
             | Some callback \<Rightarrow>
                 notifyProgress callback
                   \<lparr>ProgressEvent.fileId = fid, ProgressEvent.fileName = name file,
                    progress = Num 0, status = UPLOADING, error = None,
                    ProgressEvent.url = None\<rparr>);
          t = backend env (lib_upload_request lc this fileToUpload options env);
          reported =
            (case onProgress opts of
               None \<Rightarrow> []
             | Some callback \<Rightarrow>
                 concat (map (lib_on_httpUploadProgress callback fid file) (reports t)));
          settled =
            fire (take early (initial @ reported))
              (shared_at_call this file (FileToUpload.metadata fileToUpload))
      in case completion t of
           Inr location \<Rightarrow>
             (let link = string_or location (constructS3Url (provider_at this settled) filePath);
                  completed =
                    (case onProgress opts of
                       None \<Rightarrow> []
                     | Some callback \<Rightarrow>
                         notifyProgress callback
                           \<lparr>ProgressEvent.fileId = fid,
                            ProgressEvent.fileName = name (file_object settled),
                            progress = Num 100, status = COMPLETED, error = None,
                            ProgressEvent.url = Some link\<rparr>)
              in \<lparr>timers = initial @ reported @ completed,
                  settledAt = finishedAt t,
                  outcome =
                    Inr \<lparr>fileId = fid, fileName = name (file_object settled), url = link,
                         size' = File.size' (file_object settled), mimeType = contentType,
                         metadata =
                           Some (metadata_at (FileToUpload.metadata fileToUpload) settled)\<rparr>\<rparr>)
         | Inl err \<Rightarrow>
             (let failed =
                    (case onProgress opts of
                       None \<Rightarrow> []
                     | Some callback \<Rightarrow>
                         notifyProgress callback
                           \<lparr>ProgressEvent.fileId = fid,
                            ProgressEvent.fileName = name (file_object settled),
                            progress = Num 0, status = FAILED, error = Some (error_text err),
                            ProgressEvent.url = None\<rparr>)
              in \<lparr>timers = initial @ reported @ failed,
                  settledAt = finishedAt t,
                  outcome = Inl err\<rparr>))"

section \<open>Concrete inputs\<close>

definition example_config :: UpliftyConfig where
  "example_config =
     \<lparr>StorageConfig.type = str ''s3'', maxConcurrentUploads = None, defaultMimeType = None,
      s3 = \<lparr>accessKeyId = str ''AK'', secretAccessKey = str ''SK'', region = str ''eu'',
            bucket = str ''b''\<rparr>\<rparr>"

definition example_provider :: S3StorageProvider where
  "example_provider = S3StorageProvider_new example_config"

definition example_facade :: Uplifty where
  "example_facade = \<lparr>storageProvider = Some example_provider, Uplifty.config = example_config\<rparr>"

definition example_file :: File where
  "example_file = \<lparr>name = str ''a.txt'', File.type = str ''text/plain'', File.size' = 3\<rparr>"

definition example_ids :: id_source where
  "example_ids = \<lparr>dateNowBase36 = str ''lx1'', mathRandomBase36 = str ''0.k3''\<rparr>"

text \<open>A backend whose transfer is fulfilled, without a \<open>Location\<close>, and one whose transfer is rejected.\<close>

definition env_fulfilled :: "Progress list \<Rightarrow> nat \<Rightarrow> upload_env" where
  "env_fulfilled rs t =
     \<lparr>ids = example_ids,
      backend = (\<lambda>params. \<lparr>reports = rs, finishedAt = t, completion = Inr None\<rparr>)\<rparr>"

definition env_rejected :: "Progress list \<Rightarrow> nat \<Rightarrow> thrown \<Rightarrow> upload_env" where
  "env_rejected rs t e =
     \<lparr>ids = example_ids,
      backend = (\<lambda>params. \<lparr>reports = rs, finishedAt = t, completion = Inl e\<rparr>)\<rparr>"

definition example_metadata :: "jsstring \<rightharpoonup> jsstring" where
  "example_metadata = [str ''userId'' \<mapsto> str ''12345'']"

text \<open>Options with a callback (the only value of type \<open>unit\<close>) and metadata.\<close>

definition example_options :: "unit UploadOptions" where
  "example_options =
     \<lparr>onProgress = Some (), folder = None, generateId = None,
      UploadOptions.metadata = Some example_metadata\<rparr>"

definition example_fileToUpload :: FileToUpload where
  "example_fileToUpload =
     \<lparr>file' = example_file, id' = Some (str ''id1''), path = None,
      FileToUpload.metadata = Some example_metadata\<rparr>"

text \<open>Two files; the transfer of the first is fulfilled at time 2, that of the second rejected at time 7.\<close>

definition example_files :: "File list" where
  "example_files = [example_file, example_file\<lparr>name := str ''b.txt''\<rparr>]"

definition example_envs :: "nat \<Rightarrow> upload_env" where
  "example_envs i =
     (if i = 0 then env_fulfilled [] 2 else env_rejected [] 7 (ErrorInstance (str ''denied'')))"

text \<open>
  Two callbacks: one that leaves the shared objects alone, and one that sets the bucket
  of the caller's \<open>s3\<close> object. Options that carry a callback or none, and a second reading
  of the random generator.
\<close>

definition example_passive :: callback where
  "example_passive event s = s"

definition example_rebucket :: callback where
  "example_rebucket event s = s\<lparr>s3_object := (s3_object s)\<lparr>bucket := str ''evil''\<rparr>\<rparr>"

definition example_options_with :: "callback option \<Rightarrow> callback UploadOptions" where
  "example_options_with given =
     \<lparr>onProgress = given, folder = None, generateId = None,
      UploadOptions.metadata = Some example_metadata\<rparr>"

definition example_ids_again :: id_source where
  "example_ids_again = \<lparr>dateNowBase36 = str ''lx1'', mathRandomBase36 = str ''0.z9''\<rparr>"

section \<open>Properties of the utilities\<close>

lemma underscore_kept:
  "\<not> isWhitespace 0x5F" "\<not> outsidePrintableAscii 0x5F" "\<not> isDangerous 0x5F"
  by (simp_all add: isWhitespace_def outsidePrintableAscii_def isDangerous_def denylist_def)

lemma printable_whitespace_is_space:
  assumes "\<not> outsidePrintableAscii c"
  shows "isWhitespace c \<longleftrightarrow> c = 0x20"
proof -
  from assms have range: "0x20 \<le> c" "c \<le> 0x7E"
    by (simp_all add: outsidePrintableAscii_def)
  have "\<not> 0x2000 \<le> c"
    using order_trans [of "0x2000 :: 16 word" c "0x7E"] range(2) by auto
  with range show ?thesis
    unfolding isWhitespace_def by auto
qed

lemma sanitizeFileName_map: "sanitizeFileName s = map sanitize_unit s"
  by (simp add: sanitizeFileName_def replace_class_def sanitize_unit_def Let_def)

lemma sanitize_unit_safe:
  "\<not> isWhitespace (sanitize_unit c)"
  "\<not> outsidePrintableAscii (sanitize_unit c)"
  "\<not> isDangerous (sanitize_unit c)"
  using underscore_kept printable_whitespace_is_space [of c]
  by (auto simp: sanitize_unit_def Let_def)

text \<open>
  C7. Every code unit of a sanitized file name is printable ASCII (\<open>0x20\<close>-\<open>0x7E\<close>), is
  not white space, and is none of the denylisted characters.
\<close>

theorem sanitizeFileName_safe:
  "\<forall>c \<in> set (sanitizeFileName s).
     \<not> isWhitespace c \<and> 0x20 \<le> c \<and> c \<le> 0x7E \<and> c \<notin> set denylist"
proof
  fix c assume "c \<in> set (sanitizeFileName s)"
  then obtain d where "c = sanitize_unit d"
    by (auto simp: sanitizeFileName_map)
  with sanitize_unit_safe [of d]
  show "\<not> isWhitespace c \<and> 0x20 \<le> c \<and> c \<le> 0x7E \<and> c \<notin> set denylist"
    by (simp add: outsidePrintableAscii_def isDangerous_def)
qed

theorem sanitizeFileName_safe_witness:
  "sanitizeFileName [0x6D, 0x79, 0x20, 0xE9, 0x2F, 0x3000, 0x61] = str ''my____a''
   \<and> list_all (\<lambda>c. \<not> isWhitespace c \<and> 0x20 \<le> c \<and> c \<le> 0x7E \<and> c \<notin> set denylist)
         (sanitizeFileName [0x6D, 0x79, 0x20, 0xE9, 0x2F, 0x3000, 0x61])"
proof -
  have "sanitizeFileName [0x6D, 0x79, 0x20, 0xE9, 0x2F, 0x3000, 0x61] = str ''my____a''"
    by (simp add: sanitizeFileName_def replace_class_def isWhitespace_def
        outsidePrintableAscii_def isDangerous_def denylist_def str_def)
  moreover
  have "list_all (\<lambda>c. \<not> isWhitespace c \<and> 0x20 \<le> c \<and> c \<le> 0x7E \<and> c \<notin> set denylist)
         (sanitizeFileName [0x6D, 0x79, 0x20, 0xE9, 0x2F, 0x3000, 0x61])"
    using sanitizeFileName_safe [of "[0x6D, 0x79, 0x20, 0xE9, 0x2F, 0x3000, 0x61]"]
    by (simp only: list_all_iff)
  ultimately show ?thesis ..
qed

lemmas regex_eval =
  image_regex_def video_regex_def document_regex_def test_alternatives_def rx_def str_def
  isLineTerminator_def

text \<open>
  C1. The classification of the five MIME types of the specification. \<open>image/gif\<close>
  is matched by the image pattern, which is tried first, and goes to the images folder;
  the test \<open>mimeType === 'image/gif'\<close> of the video branch is never reached with a true
  outcome.
\<close>

theorem getDestinationFolder_examples:
  "getDestinationFolder (str ''image/png'') = IMAGES
   \<and> getDestinationFolder (str ''image/gif'') = IMAGES
   \<and> getDestinationFolder (str ''video/mp4'') = VIDEOS
   \<and> getDestinationFolder (str ''application/pdf'') = DOCUMENTS
   \<and> getDestinationFolder (str ''application/x-custom'') = DEFAULT"
  by (simp add: getDestinationFolder_def regex_eval)

text \<open>The videos folder is chosen by the prefix \<open>video/\<close> alone.\<close>

lemma image_regex_gif: "image_regex (str ''image/gif'')"
  by (simp add: regex_eval)

lemma videos_only_by_prefix:
  "getDestinationFolder mimeType' = VIDEOS \<longleftrightarrow> \<not> image_regex mimeType' \<and> video_regex mimeType'"
  using image_regex_gif by (auto simp: getDestinationFolder_def)

subsection \<open>The content type\<close>

lemma truthy_octet_stream: "truthy (JString (str ''application/octet-stream''))"
  by (simp add: str_def)

lemma guessMimeType_truthy: "truthy (guessMimeType lc f)"
  using truthy_octet_stream by (simp add: guessMimeType_def js_or_def Let_def)

text \<open>
  The configured default and the last literal of the chain are never taken: the content
  type is the declared type of the file, or what \<open>guessMimeType\<close> returns.
\<close>

lemma contentType_resolution:
  "contentType_of lc this file =
     (if File.type file \<noteq> [] then JString (File.type file) else guessMimeType lc (name file))"
  using guessMimeType_truthy [of lc "name file"]
  by (simp add: contentType_of_def js_or_def)

text \<open>
  C9. On a file name whose extension is \<open>constructor\<close>, the table lookup finds the
  function \<open>Object\<close> that every object literal inherits: \<open>guessMimeType\<close> returns a
  function, not a string; likewise for \<open>__proto__\<close>. A known extension gives its type,
  and a name without extension and the empty name give \<open>application/octet-stream\<close>.
\<close>

theorem guessMimeType_inherited_key:
  "guessMimeType toLowerCase_ascii (str ''a.constructor'') = BuiltinFunction ''Object''
   \<and> guessMimeType toLowerCase_ascii (str ''a.__proto__'') = ObjectPrototype
   \<and> guessMimeType toLowerCase_ascii (str ''photo.PNG'') = JString (str ''image/png'')
   \<and> guessMimeType toLowerCase_ascii (str ''README'') = JString (str ''application/octet-stream'')
   \<and> guessMimeType toLowerCase_ascii [] = JString (str ''application/octet-stream'')"
  by (simp add: guessMimeType_def getFileExtension_def pop_def toLowerCase_ascii_def str_def
      get_property_def mimeTypes_def Object_prototype_methods_def js_or_def)

text \<open>For every other extension it returns a non-empty string.\<close>

lemma mimeTypes_values_nonempty: "lookup mimeTypes key = Some v \<Longrightarrow> str v \<noteq> []"
  by (auto simp: mimeTypes_def str_def split: if_splits)

lemma guessMimeType_string:
  assumes "lookup Object_prototype_methods (getFileExtension lc f) = None"
    and "getFileExtension lc f \<noteq> str ''__proto__''"
  shows "\<exists>s. guessMimeType lc f = JString s \<and> s \<noteq> []"
  using assms mimeTypes_values_nonempty [of "getFileExtension lc f"] truthy_octet_stream
  by (auto simp: guessMimeType_def get_property_def js_or_def Let_def split: option.splits)

section \<open>Properties of the facade\<close>

text \<open>
  C3, as stated, fails: for a configuration that omits the optional fields, \<open>getConfig()\<close>
  returns them omitted. The defaults are in the provider's own copy only.
\<close>

theorem getConfig_not_merged:
  "Uplifty_new example_config = Inr example_facade
   \<and> maxConcurrentUploads (getConfig example_facade) = None
   \<and> defaultMimeType (getConfig example_facade) = None
   \<and> maxConcurrentUploads (S3StorageProvider.config example_provider) = Some 10"
  by (simp add: Uplifty_new_def initializeProvider_def getConfig_def example_facade_def
      example_provider_def example_config_def StorageType_S3_def S3StorageProvider_new_def)

text \<open>
  C3, amended. For every configuration tagged \<open>s3\<close> the construction succeeds,
  \<open>getConfig()\<close> returns the configuration as it was given, and the provider holds the
  configuration with the defaults (\<open>10\<close>, \<open>application/octet-stream\<close>) in the place of
  omitted optional fields.
\<close>

theorem facade_construction:
  assumes "StorageConfig.type cfg = StorageType_S3"
  shows "\<exists>this provider.
           Uplifty_new cfg = Inr this
         \<and> getConfig this = cfg
         \<and> storageProvider this = Some provider
         \<and> maxConcurrentUploads (S3StorageProvider.config provider)
             = Some (case maxConcurrentUploads cfg of None \<Rightarrow> 10 | Some n \<Rightarrow> n)
         \<and> defaultMimeType (S3StorageProvider.config provider)
             = Some (case defaultMimeType cfg of
                       None \<Rightarrow> str ''application/octet-stream'' | Some t \<Rightarrow> t)
         \<and> StorageConfig.type (S3StorageProvider.config provider) = StorageConfig.type cfg
         \<and> s3 (S3StorageProvider.config provider) = s3 cfg"
  using assms
  by (simp add: Uplifty_new_def initializeProvider_def getConfig_def S3StorageProvider_new_def
      split: option.splits)

theorem facade_construction_witness:
  "StorageConfig.type example_config = StorageType_S3
   \<and> (\<exists>this provider.
           Uplifty_new example_config = Inr this
         \<and> getConfig this = example_config
         \<and> storageProvider this = Some provider
         \<and> maxConcurrentUploads (S3StorageProvider.config provider) = Some 10
         \<and> defaultMimeType (S3StorageProvider.config provider)
             = Some (str ''application/octet-stream'')
         \<and> StorageConfig.type (S3StorageProvider.config provider) = str ''s3''
         \<and> s3 (S3StorageProvider.config provider) = s3 example_config)"
proof -
  have tag: "StorageConfig.type example_config = StorageType_S3"
    by (simp add: example_config_def StorageType_S3_def)
  have "maxConcurrentUploads example_config = None" "defaultMimeType example_config = None"
    "StorageConfig.type example_config = str ''s3''"
    by (simp_all add: example_config_def)
  with facade_construction [OF tag] tag show ?thesis by simp
qed

text \<open>Any other tag makes the constructor throw.\<close>

lemma unsupported_type:
  "StorageConfig.type cfg \<noteq> StorageType_S3 \<Longrightarrow> \<exists>e. Uplifty_new cfg = Inl e"
  by (simp add: Uplifty_new_def initializeProvider_def)

subsection \<open>Promise.all\<close>

lemma earliest_rejection_None:
  "earliest_rejection ps = None \<longleftrightarrow> (\<forall>p \<in> set ps. \<not> isl (snd p))"
  by (induction ps rule: earliest_rejection.induct) (auto split: option.splits)

lemma earliest_rejection_Some:
  "earliest_rejection ps = Some (t, e) \<Longrightarrow> (t, Inl e) \<in> set ps"
  by (induction ps arbitrary: t e rule: earliest_rejection.induct)
    (auto split: option.splits if_splits)

lemma earliest_rejection_least:
  "earliest_rejection ps = Some (t, e) \<Longrightarrow> (t', Inl e') \<in> set ps \<Longrightarrow> t \<le> t'"
proof (induction ps arbitrary: t e rule: earliest_rejection.induct)
  case 1
  then show ?case by simp
next
  case (2 u v ps)
  then show ?case by auto
next
  case (3 u d ps)
  show ?case
  proof (cases "earliest_rejection ps")
    case None
    then have "\<forall>p \<in> set ps. \<not> isl (snd p)"
      by (simp add: earliest_rejection_None)
    with 3(2,3) None show ?thesis by force
  next
    case (Some a)
    obtain t2 e2 where a: "a = (t2, e2)" by (cases a)
    have "(t', Inl e') \<in> set ps \<Longrightarrow> t2 \<le> t'"
      using 3(1) [of t2 e2] Some a by simp
    with 3(2,3) Some a show ?thesis by (auto split: if_splits)
  qed
qed

lemma fulfilled_values_all:
  "\<forall>p \<in> set ps. \<not> isl (snd p) \<Longrightarrow> map snd ps = map Inr (fulfilled_values ps)"
  by (induction ps rule: fulfilled_values.induct) auto

lemma Promise_all_rejects:
  assumes "\<exists>p \<in> set ps. isl (snd p)"
  shows "\<exists>t e. Promise_all ps = Inl e \<and> (t, Inl e) \<in> set ps"
proof -
  from assms obtain t e where "earliest_rejection ps = Some (t, e)"
    using earliest_rejection_None [of ps] by (cases "earliest_rejection ps") auto
  then show ?thesis
    using earliest_rejection_Some [of ps t e] by (auto simp: Promise_all_def)
qed

lemma Promise_all_fulfils:
  assumes "\<forall>p \<in> set ps. \<not> isl (snd p)"
  shows "Promise_all ps = Inr (fulfilled_values ps) \<and> map snd ps = map Inr (fulfilled_values ps)"
  using assms earliest_rejection_None [of ps] fulfilled_values_all [of ps]
  by (simp add: Promise_all_def)

section \<open>Properties of the providers\<close>

subsection \<open>What a call returns and which timers it sets\<close>

lemma outcome_upload:
  "outcome (S3StorageProvider_upload lc this file options env) =
     (case completion (backend env (upload_request lc this file options env)) of
        Inl err \<Rightarrow> Inl err
      | Inr location \<Rightarrow>
          Inr \<lparr>fileId = resolve_fileId file options env,
               fileName = name file,
               url = string_or location
                       (constructS3Url this (getFilePath lc file (folder (options_or_empty options)))),
               size' = File.size' file,
               mimeType = contentType_of lc this file,
               metadata = Some (with_default Map.empty
                                  (UploadOptions.metadata (options_or_empty options)))\<rparr>)"
  by (simp add: S3StorageProvider_upload_def Let_def split: sum.splits)

lemma settledAt_upload:
  "settledAt (S3StorageProvider_upload lc this file options env) =
     finishedAt (backend env (upload_request lc this file options env))"
  by (simp add: S3StorageProvider_upload_def Let_def split: sum.splits)

lemma timers_upload_none:
  "onProgress (options_or_empty options) = None \<Longrightarrow>
     timers (S3StorageProvider_upload lc this file options env) = []"
  by (simp add: S3StorageProvider_upload_def Let_def split: sum.splits)

lemma timers_upload_rejected:
  assumes "onProgress (options_or_empty options) = Some cb"
    and "completion (backend env (upload_request lc this file options env)) = Inl err"
  shows "timers (S3StorageProvider_upload lc this file options env) =
     (cb, \<lparr>ProgressEvent.fileId = resolve_fileId file options env,
           ProgressEvent.fileName = name file, progress = Num 0, status = UPLOADING,
           error = None, ProgressEvent.url = None\<rparr>)
     # concat (map (on_httpUploadProgress cb (resolve_fileId file options env) file)
         (reports (backend env (upload_request lc this file options env))))
     @ [(cb, \<lparr>ProgressEvent.fileId = resolve_fileId file options env,
              ProgressEvent.fileName = name file, progress = Num 0, status = FAILED,
              error = Some (error_text err), ProgressEvent.url = None\<rparr>)]"
  using assms by (simp add: S3StorageProvider_upload_def Let_def notifyProgress_def)

lemma timers_upload_fulfilled:
  assumes "onProgress (options_or_empty options) = Some cb"
    and "completion (backend env (upload_request lc this file options env)) = Inr location"
  shows "timers (S3StorageProvider_upload lc this file options env) =
     (cb, \<lparr>ProgressEvent.fileId = resolve_fileId file options env,
           ProgressEvent.fileName = name file, progress = Num 0, status = UPLOADING,
           error = None, ProgressEvent.url = None\<rparr>)
     # concat (map (on_httpUploadProgress cb (resolve_fileId file options env) file)
         (reports (backend env (upload_request lc this file options env))))
     @ [(cb, \<lparr>ProgressEvent.fileId = resolve_fileId file options env,
              ProgressEvent.fileName = name file, progress = Num 100, status = COMPLETED,
              error = None,
              ProgressEvent.url =
                Some (string_or location
                  (constructS3Url this
                     (getFilePath lc file (folder (options_or_empty options)))))\<rparr>)]"
  using assms by (simp add: S3StorageProvider_upload_def Let_def notifyProgress_def)

lemma outcome_lib_upload:
  "outcome (lib_S3StorageProvider_upload lc this fileToUpload options env) =
     (case completion (backend env (lib_upload_request lc this fileToUpload options env)) of
        Inl err \<Rightarrow> Inl err
      | Inr location \<Rightarrow>
          Inr \<lparr>fileId = lib_resolve_fileId fileToUpload options env,
               fileName = name (file' fileToUpload),
               url = string_or location
                       (constructS3Url this (lib_resolve_filePath lc fileToUpload options)),
               size' = File.size' (file' fileToUpload),
               mimeType = contentType_of lc this (file' fileToUpload),
               metadata = Some (with_default Map.empty (FileToUpload.metadata fileToUpload))\<rparr>)"
  by (simp add: lib_S3StorageProvider_upload_def Let_def split: sum.splits)

lemma settledAt_lib_upload:
  "settledAt (lib_S3StorageProvider_upload lc this fileToUpload options env) =
     finishedAt (backend env (lib_upload_request lc this fileToUpload options env))"
  by (simp add: lib_S3StorageProvider_upload_def Let_def split: sum.splits)

lemma timers_lib_upload_none:
  "onProgress (options_or_empty options) = None \<Longrightarrow>
     timers (lib_S3StorageProvider_upload lc this fileToUpload options env) = []"
  by (simp add: lib_S3StorageProvider_upload_def Let_def split: sum.splits)

lemma timers_lib_upload_rejected:
  assumes "onProgress (options_or_empty options) = Some cb"
    and "completion (backend env (lib_upload_request lc this fileToUpload options env)) = Inl err"
  shows "timers (lib_S3StorageProvider_upload lc this fileToUpload options env) =
     (cb, \<lparr>ProgressEvent.fileId = lib_resolve_fileId fileToUpload options env,
           ProgressEvent.fileName = name (file' fileToUpload), progress = Num 0,
           status = UPLOADING, error = None, ProgressEvent.url = None\<rparr>)
     # concat (map (lib_on_httpUploadProgress cb (lib_resolve_fileId fileToUpload options env)
                     (file' fileToUpload))
         (reports (backend env (lib_upload_request lc this fileToUpload options env))))
     @ [(cb, \<lparr>ProgressEvent.fileId = lib_resolve_fileId fileToUpload options env,
              ProgressEvent.fileName = name (file' fileToUpload), progress = Num 0,
              status = FAILED, error = Some (error_text err), ProgressEvent.url = None\<rparr>)]"
  using assms by (simp add: lib_S3StorageProvider_upload_def Let_def notifyProgress_def)

lemma timers_lib_upload_fulfilled:
  assumes "onProgress (options_or_empty options) = Some cb"
    and "completion (backend env (lib_upload_request lc this fileToUpload options env)) = Inr location"
  shows "timers (lib_S3StorageProvider_upload lc this fileToUpload options env) =
     (cb, \<lparr>ProgressEvent.fileId = lib_resolve_fileId fileToUpload options env,
           ProgressEvent.fileName = name (file' fileToUpload), progress = Num 0,
           status = UPLOADING, error = None, ProgressEvent.url = None\<rparr>)
     # concat (map (lib_on_httpUploadProgress cb (lib_resolve_fileId fileToUpload options env)
                     (file' fileToUpload))
         (reports (backend env (lib_upload_request lc this fileToUpload options env))))
     @ [(cb, \<lparr>ProgressEvent.fileId = lib_resolve_fileId fileToUpload options env,
              ProgressEvent.fileName = name (file' fileToUpload), progress = Num 100,
              status = COMPLETED, error = None,
              ProgressEvent.url =
                Some (string_or location
                  (constructS3Url this (lib_resolve_filePath lc fileToUpload options)))\<rparr>)]"
  using assms by (simp add: lib_S3StorageProvider_upload_def Let_def notifyProgress_def)

subsection \<open>The listeners\<close>

lemma on_httpUploadProgress_guarded:
  assumes "(c, ev) \<in> set (on_httpUploadProgress cb fid file p)"
  shows "\<exists>l t. loaded p = Some l \<and> total p = Some t \<and> l \<noteq> 0 \<and> t \<noteq> 0
           \<and> c = cb \<and> status ev = UPLOADING \<and> progress ev = RoundPercent (Some l) (Some t)"
  using assms
  by (auto simp: on_httpUploadProgress_def truthy_count_def notifyProgress_def Let_def
      split: if_splits option.splits)

lemma on_httpUploadProgress_emits:
  "on_httpUploadProgress cb fid file p \<noteq> [] \<longleftrightarrow>
     (\<exists>l t. loaded p = Some l \<and> total p = Some t \<and> l \<noteq> 0 \<and> t \<noteq> 0)"
  by (auto simp: on_httpUploadProgress_def truthy_count_def notifyProgress_def Let_def
      split: option.splits)

lemma reported_status:
  "(c, ev) \<in> set (concat (map (on_httpUploadProgress cb fid file) rs)) \<Longrightarrow> status ev = UPLOADING"
  using on_httpUploadProgress_guarded by fastforce

lemma lib_reported_status:
  "(c, ev) \<in> set (concat (map (lib_on_httpUploadProgress cb fid file) rs)) \<Longrightarrow> status ev = UPLOADING"
  by (auto simp: lib_on_httpUploadProgress_def notifyProgress_def Let_def)

lemma no_FAILED_reported:
  "filter (\<lambda>(c, ev). status ev = FAILED) (concat (map (on_httpUploadProgress cb fid file) rs)) = []"
proof -
  have "status ev \<noteq> FAILED"
    if "(c, ev) \<in> set (concat (map (on_httpUploadProgress cb fid file) rs))" for c ev
    using reported_status [OF that] by simp
  then show ?thesis
    unfolding filter_empty_conv by blast
qed

lemma lib_no_FAILED_reported:
  "filter (\<lambda>(c, ev). status ev = FAILED) (concat (map (lib_on_httpUploadProgress cb fid file) rs)) = []"
proof -
  have "status ev \<noteq> FAILED"
    if "(c, ev) \<in> set (concat (map (lib_on_httpUploadProgress cb fid file) rs))" for c ev
    using lib_reported_status [OF that] by simp
  then show ?thesis
    unfolding filter_empty_conv by blast
qed

subsection \<open>The request does not depend on the callback\<close>

lemma upload_request_ignores_callback:
  "upload_request lc this f (Some (opts\<lparr>onProgress := a\<rparr>)) env
     = upload_request lc this f (Some (opts\<lparr>onProgress := b\<rparr>)) env"
  by (simp add: upload_request_def resolve_fileId_def options_or_empty_def)

lemma lib_upload_request_ignores_callback:
  "lib_upload_request lc this fileToUpload (Some (opts\<lparr>onProgress := a\<rparr>)) env
     = lib_upload_request lc this fileToUpload (Some (opts\<lparr>onProgress := b\<rparr>)) env"
  by (simp add: lib_upload_request_def lib_resolve_fileId_def lib_resolve_filePath_def
      options_or_empty_def)

subsection \<open>The metadata of the result\<close>

text \<open>
  C8. A successful upload with caller-supplied metadata \<open>m\<close> returns a result whose
  metadata is exactly \<open>m\<close>, not the enriched bag sent to the backend. In \<open>providers/s3\<close>
  the metadata comes with the options, in \<open>lib/s3Provider\<close> with the \<open>FileToUpload\<close>.
\<close>

theorem returned_metadata:
  "(UploadOptions.metadata opts = Some m
      \<and> outcome (S3StorageProvider_upload lc this f (Some opts) env) = Inr r
      \<longrightarrow> UploadResult.metadata r = Some m)
   \<and> (FileToUpload.metadata fileToUpload = Some m
      \<and> outcome (lib_S3StorageProvider_upload lc this fileToUpload options env) = Inr r'
      \<longrightarrow> UploadResult.metadata r' = Some m)"
  by (auto simp: outcome_upload outcome_lib_upload options_or_empty_def with_default_def
      split: sum.splits)


theorem returned_metadata_witness:
  "UploadResult.metadata
     (projr (outcome (S3StorageProvider_upload toLowerCase_ascii example_provider example_file
                        (Some example_options) (env_fulfilled [] 1))))
     = Some [str ''userId'' \<mapsto> str ''12345'']
   \<and> UploadResult.metadata
     (projr (outcome (lib_S3StorageProvider_upload toLowerCase_ascii example_provider
                        example_fileToUpload (Some example_options) (env_fulfilled [] 1))))
     = Some [str ''userId'' \<mapsto> str ''12345'']"
proof -
  let ?new = "S3StorageProvider_upload toLowerCase_ascii example_provider example_file
                (Some example_options) (env_fulfilled [] 1)"
  let ?old = "lib_S3StorageProvider_upload toLowerCase_ascii example_provider
                example_fileToUpload (Some example_options) (env_fulfilled [] 1)"
  have m: "UploadOptions.metadata example_options = Some [str ''userId'' \<mapsto> str ''12345'']"
    "FileToUpload.metadata example_fileToUpload = Some [str ''userId'' \<mapsto> str ''12345'']"
    by (simp_all add: example_options_def example_fileToUpload_def example_metadata_def)
  have new: "outcome ?new = Inr (projr (outcome ?new))"
    by (simp add: outcome_upload env_fulfilled_def)
  have old: "outcome ?old = Inr (projr (outcome ?old))"
    by (simp add: outcome_lib_upload env_fulfilled_def)
  from m new old
    returned_metadata [where opts = example_options and m = "[str ''userId'' \<mapsto> str ''12345'']"
      and r = "projr (outcome ?new)" and r' = "projr (outcome ?old)"
      and fileToUpload = example_fileToUpload and options = "Some example_options"
      and lc = toLowerCase_ascii and this = example_provider and f = example_file
      and env = "env_fulfilled [] 1"]
  show ?thesis by blast
qed

subsection \<open>The concrete inputs\<close>

lemma example_path:
  "getFilePath toLowerCase_ascii example_file None = str ''documents/a.txt''"
  "getFilePath toLowerCase_ascii (example_file\<lparr>File.size' := 0\<rparr>) None = str ''documents/a.txt''"
  by (simp_all add: getFilePath_def example_file_def js_or_def getDestinationFolder_def
      regex_eval sanitizeFileName_def replace_class_def isWhitespace_def
      outsidePrintableAscii_def isDangerous_def denylist_def)

lemma example_contentType:
  "contentType_of lc example_provider example_file = JString (str ''text/plain'')"
  "contentType_of lc example_provider (example_file\<lparr>File.size' := 0\<rparr>)
     = JString (str ''text/plain'')"
  by (simp_all add: contentType_resolution example_file_def str_def)

lemma example_url:
  "constructS3Url example_provider (str ''documents/a.txt'')
     = str ''https://b.s3.eu.amazonaws.com/documents/a.txt''"
  by (simp add: constructS3Url_def example_provider_def S3StorageProvider_new_def
      example_config_def str_def)

lemma example_callback:
  "onProgress (options_or_empty (Some example_options)) = Some ()"
  "folder (options_or_empty (Some example_options)) = None"
  by (simp_all add: options_or_empty_def example_options_def)

lemma example_generated:
  "resolve_fileId f (Some example_options) (env_fulfilled rs t) = str ''lx1k3''"
  "resolve_fileId f (Some example_options) (env_rejected rs t e) = str ''lx1k3''"
  by (simp_all add: resolve_fileId_def options_or_empty_def with_default_def
      example_options_def generateUniqueId_def env_fulfilled_def env_rejected_def
      example_ids_def str_def)

subsection \<open>A failed transfer\<close>

text \<open>
  C4, as stated, fails: when the transfer is rejected with an \<open>Error\<close> whose message is
  empty, the \<open>error\<close> of the \<open>FAILED\<close> event is the empty string.
\<close>

theorem empty_error_message:
  "timers (S3StorageProvider_upload toLowerCase_ascii example_provider example_file
             (Some example_options)
             (env_rejected [\<lparr>loaded = Some 2, total = Some 4\<rparr>] 5 (ErrorInstance [])))
     = [((), \<lparr>ProgressEvent.fileId = str ''lx1k3'', ProgressEvent.fileName = str ''a.txt'',
              progress = Num 0, status = UPLOADING, error = None,
              ProgressEvent.url = None\<rparr>),
        ((), \<lparr>ProgressEvent.fileId = str ''lx1k3'', ProgressEvent.fileName = str ''a.txt'',
              progress = RoundPercent (Some 2) (Some 4), status = UPLOADING, error = None,
              ProgressEvent.url = None\<rparr>),
        ((), \<lparr>ProgressEvent.fileId = str ''lx1k3'', ProgressEvent.fileName = str ''a.txt'',
              progress = Num 0, status = FAILED, error = Some [],
              ProgressEvent.url = None\<rparr>)]
   \<and> outcome (S3StorageProvider_upload toLowerCase_ascii example_provider example_file
                (Some example_options)
                (env_rejected [\<lparr>loaded = Some 2, total = Some 4\<rparr>] 5 (ErrorInstance [])))
     = Inl (ErrorInstance [])"
proof -
  let ?env = "env_rejected [\<lparr>loaded = Some 2, total = Some 4\<rparr>] 5 (ErrorInstance [])"
  have rej: "completion (backend ?env p) = Inl (ErrorInstance [])"
    and rep: "reports (backend ?env p) = [\<lparr>loaded = Some 2, total = Some 4\<rparr>]" for p
    by (simp_all add: env_rejected_def)
  have "name example_file = str ''a.txt''"
    by (simp add: example_file_def)
  then show ?thesis
    by (simp add: timers_upload_rejected [OF example_callback(1) rej] rep outcome_upload rej
        example_generated on_httpUploadProgress_def truthy_count_def notifyProgress_def
        error_text_def)
qed

text \<open>
  C4, amended. When a callback is supplied and the transfer is rejected, exactly one
  \<open>FAILED\<close> event is emitted; its \<open>error\<close> is the message of the error if the error is an
  \<open>Error\<close> and \<open>Upload failed\<close> otherwise; and the call is rejected with the very error of
  the transfer. This holds for both providers.
\<close>

theorem failed_upload:
  "(onProgress opts = Some cb
      \<and> completion (backend env (upload_request lc this f (Some opts) env)) = Inl e
    \<longrightarrow> filter (\<lambda>(c, ev). status ev = FAILED)
            (timers (S3StorageProvider_upload lc this f (Some opts) env))
          = [(cb, \<lparr>ProgressEvent.fileId = resolve_fileId f (Some opts) env,
                   ProgressEvent.fileName = name f, progress = Num 0, status = FAILED,
                   error = Some (case e of ErrorInstance message \<Rightarrow> message
                                 | OtherThrown v \<Rightarrow> str ''Upload failed''),
                   ProgressEvent.url = None\<rparr>)]
        \<and> outcome (S3StorageProvider_upload lc this f (Some opts) env) = Inl e)
   \<and> (onProgress opts = Some cb
      \<and> completion (backend env (lib_upload_request lc this fileToUpload (Some opts) env)) = Inl e
    \<longrightarrow> filter (\<lambda>(c, ev). status ev = FAILED)
            (timers (lib_S3StorageProvider_upload lc this fileToUpload (Some opts) env))
          = [(cb, \<lparr>ProgressEvent.fileId = lib_resolve_fileId fileToUpload (Some opts) env,
                   ProgressEvent.fileName = name (file' fileToUpload), progress = Num 0,
                   status = FAILED,
                   error = Some (case e of ErrorInstance message \<Rightarrow> message
                                 | OtherThrown v \<Rightarrow> str ''Upload failed''),
                   ProgressEvent.url = None\<rparr>)]
        \<and> outcome (lib_S3StorageProvider_upload lc this fileToUpload (Some opts) env) = Inl e)"
proof (intro conjI impI; elim conjE)
  assume cb: "onProgress opts = Some cb"
    and rej: "completion (backend env (upload_request lc this f (Some opts) env)) = Inl e"
  from cb have cb': "onProgress (options_or_empty (Some opts)) = Some cb"
    by (simp add: options_or_empty_def)
  show "filter (\<lambda>(c, ev). status ev = FAILED)
            (timers (S3StorageProvider_upload lc this f (Some opts) env))
          = [(cb, \<lparr>ProgressEvent.fileId = resolve_fileId f (Some opts) env,
                   ProgressEvent.fileName = name f, progress = Num 0, status = FAILED,
                   error = Some (case e of ErrorInstance message \<Rightarrow> message
                                 | OtherThrown v \<Rightarrow> str ''Upload failed''),
                   ProgressEvent.url = None\<rparr>)]"
    by (simp add: timers_upload_rejected [OF cb' rej] no_FAILED_reported error_text_def)
  show "outcome (S3StorageProvider_upload lc this f (Some opts) env) = Inl e"
    by (simp add: outcome_upload rej)
next
  assume cb: "onProgress opts = Some cb"
    and rej: "completion (backend env (lib_upload_request lc this fileToUpload (Some opts) env)) = Inl e"
  from cb have cb': "onProgress (options_or_empty (Some opts)) = Some cb"
    by (simp add: options_or_empty_def)
  show "filter (\<lambda>(c, ev). status ev = FAILED)
            (timers (lib_S3StorageProvider_upload lc this fileToUpload (Some opts) env))
          = [(cb, \<lparr>ProgressEvent.fileId = lib_resolve_fileId fileToUpload (Some opts) env,
                   ProgressEvent.fileName = name (file' fileToUpload), progress = Num 0,
                   status = FAILED,
                   error = Some (case e of ErrorInstance message \<Rightarrow> message
                                 | OtherThrown v \<Rightarrow> str ''Upload failed''),
                   ProgressEvent.url = None\<rparr>)]"
    by (simp add: timers_lib_upload_rejected [OF cb' rej] lib_no_FAILED_reported error_text_def)
  show "outcome (lib_S3StorageProvider_upload lc this fileToUpload (Some opts) env) = Inl e"
    by (simp add: outcome_lib_upload rej)
qed


theorem failed_upload_witness:
  "filter (\<lambda>(c, ev). status ev = FAILED)
     (timers (S3StorageProvider_upload toLowerCase_ascii example_provider example_file
                (Some example_options) (env_rejected [] 5 (ErrorInstance (str ''denied'')))))
     = [((), \<lparr>ProgressEvent.fileId = str ''lx1k3'', ProgressEvent.fileName = str ''a.txt'',
              progress = Num 0, status = FAILED, error = Some (str ''denied''),
              ProgressEvent.url = None\<rparr>)]
   \<and> outcome (S3StorageProvider_upload toLowerCase_ascii example_provider example_file
                (Some example_options) (env_rejected [] 5 (ErrorInstance (str ''denied''))))
     = Inl (ErrorInstance (str ''denied''))
   \<and> filter (\<lambda>(c, ev). status ev = FAILED)
     (timers (lib_S3StorageProvider_upload toLowerCase_ascii example_provider example_fileToUpload
                (Some example_options) (env_rejected [] 5 (ErrorInstance (str ''denied'')))))
     = [((), \<lparr>ProgressEvent.fileId = str ''id1'', ProgressEvent.fileName = str ''a.txt'',
              progress = Num 0, status = FAILED, error = Some (str ''denied''),
              ProgressEvent.url = None\<rparr>)]
   \<and> outcome (lib_S3StorageProvider_upload toLowerCase_ascii example_provider
                example_fileToUpload (Some example_options)
                (env_rejected [] 5 (ErrorInstance (str ''denied''))))
     = Inl (ErrorInstance (str ''denied''))"
proof -
  let ?env = "env_rejected [] 5 (ErrorInstance (str ''denied''))"
  have cb: "onProgress example_options = Some ()"
    by (simp add: example_options_def)
  have rej:
    "completion (backend ?env (upload_request toLowerCase_ascii example_provider example_file
                   (Some example_options) ?env)) = Inl (ErrorInstance (str ''denied''))"
    "completion (backend ?env (lib_upload_request toLowerCase_ascii example_provider
                   example_fileToUpload (Some example_options) ?env))
       = Inl (ErrorInstance (str ''denied''))"
    by (simp_all add: env_rejected_def)
  have ids:
    "resolve_fileId example_file (Some example_options) ?env = str ''lx1k3''"
    "lib_resolve_fileId example_fileToUpload (Some example_options) ?env = str ''id1''"
    "name example_file = str ''a.txt''" "name (file' example_fileToUpload) = str ''a.txt''"
    by (simp_all add: resolve_fileId_def lib_resolve_fileId_def options_or_empty_def
        with_default_def string_or_def generateUniqueId_def example_options_def
        example_fileToUpload_def example_file_def example_ids_def env_rejected_def str_def)
  from cb rej ids
    failed_upload [where opts = example_options and cb = "()" and env = ?env
      and lc = toLowerCase_ascii and this = example_provider and f = example_file
      and fileToUpload = example_fileToUpload and e = "ErrorInstance (str ''denied'')"]
  show ?thesis by simp
qed

subsection \<open>The file id\<close>

lemma on_httpUploadProgress_fileId:
  "(c, ev) \<in> set (on_httpUploadProgress cb fid f p) \<Longrightarrow> ProgressEvent.fileId ev = fid"
  by (auto simp: on_httpUploadProgress_def notifyProgress_def Let_def split: if_splits)

lemma lib_on_httpUploadProgress_fileId:
  "(c, ev) \<in> set (lib_on_httpUploadProgress cb fid f p) \<Longrightarrow> ProgressEvent.fileId ev = fid"
  by (auto simp: lib_on_httpUploadProgress_def notifyProgress_def Let_def)

lemma timers_fileId:
  assumes "(c, ev) \<in> set (timers (S3StorageProvider_upload lc this f options env))"
  shows "ProgressEvent.fileId ev = resolve_fileId f options env"
proof (cases "onProgress (options_or_empty options)")
  case None
  with assms show ?thesis by (simp add: timers_upload_none)
next
  case (Some cb)
  show ?thesis
  proof (cases "completion (backend env (upload_request lc this f options env))")
    case (Inl err)
    with assms Some show ?thesis
      by (auto simp: timers_upload_rejected dest: on_httpUploadProgress_fileId)
  next
    case (Inr location)
    with assms Some show ?thesis
      by (auto simp: timers_upload_fulfilled dest: on_httpUploadProgress_fileId)
  qed
qed

lemma lib_timers_fileId:
  assumes "(c, ev) \<in> set (timers (lib_S3StorageProvider_upload lc this fileToUpload options env))"
  shows "ProgressEvent.fileId ev = lib_resolve_fileId fileToUpload options env"
proof (cases "onProgress (options_or_empty options)")
  case None
  with assms show ?thesis by (simp add: timers_lib_upload_none)
next
  case (Some cb)
  show ?thesis
  proof (cases "completion (backend env (lib_upload_request lc this fileToUpload options env))")
    case (Inl err)
    with assms Some show ?thesis
      by (auto simp: timers_lib_upload_rejected dest: lib_on_httpUploadProgress_fileId)
  next
    case (Inr location)
    with assms Some show ?thesis
      by (auto simp: timers_lib_upload_fulfilled dest: lib_on_httpUploadProgress_fileId)
  qed
qed

text \<open>
  C2, as stated, fails: an id that is supplied as the empty string is not the resolved id;
  here, with generation switched off, the file name is.
\<close>

theorem empty_id_not_used:
  "id' (example_fileToUpload\<lparr>id' := Some []\<rparr>) = Some []
   \<and> outcome (lib_S3StorageProvider_upload toLowerCase_ascii example_provider
                (example_fileToUpload\<lparr>id' := Some []\<rparr>)
                (Some (example_options\<lparr>generateId := Some False\<rparr>)) (env_fulfilled [] 5))
     = Inr \<lparr>fileId = str ''a.txt'', fileName = str ''a.txt'',
            url = str ''https://b.s3.eu.amazonaws.com/documents/a.txt'', size' = 3,
            mimeType = JString (str ''text/plain''), metadata = Some example_metadata\<rparr>"
proof -
  have "lib_resolve_filePath toLowerCase_ascii (example_fileToUpload\<lparr>id' := Some []\<rparr>)
          (Some (example_options\<lparr>generateId := Some False\<rparr>)) = str ''documents/a.txt''"
    using example_path(1)
    by (simp add: lib_resolve_filePath_def string_or_def options_or_empty_def
        example_fileToUpload_def example_options_def)
  moreover have "lib_resolve_fileId (example_fileToUpload\<lparr>id' := Some []\<rparr>)
          (Some (example_options\<lparr>generateId := Some False\<rparr>)) (env_fulfilled [] 5)
      = str ''a.txt''"
    by (simp add: lib_resolve_fileId_def string_or_def options_or_empty_def with_default_def
        example_fileToUpload_def example_options_def example_file_def)
  moreover have "file' (example_fileToUpload\<lparr>id' := Some []\<rparr>) = example_file"
    "FileToUpload.metadata (example_fileToUpload\<lparr>id' := Some []\<rparr>) = Some example_metadata"
    "name example_file = str ''a.txt''" "File.size' example_file = 3"
    by (simp_all add: example_fileToUpload_def example_file_def)
  moreover have "completion (backend (env_fulfilled [] 5) p) = Inr None" for p
    by (simp add: env_fulfilled_def)
  ultimately show ?thesis
    by (simp add: outcome_lib_upload example_contentType example_url string_or_def
        with_default_def)
qed

text \<open>
  Two generated ids whose clock readings are written with equally many digits are equal
  only if both the clock readings and the random draws are.
\<close>

lemma generateUniqueId_distinct:
  assumes "length (dateNowBase36 a) = length (dateNowBase36 b)"
  shows "generateUniqueId a = generateUniqueId b \<longleftrightarrow>
           dateNowBase36 a = dateNowBase36 b
           \<and> drop 2 (mathRandomBase36 a) = drop 2 (mathRandomBase36 b)"
  using assms by (simp add: generateUniqueId_def)

text \<open>
  C2, amended. In \<open>lib/s3Provider\<close> the resolved id is the caller-supplied id when one is
  present and not empty; otherwise the freshly generated unique id unless generation is
  switched off (it is on by default); otherwise the raw file name. \<open>providers/s3\<close> takes no
  id from the caller and resolves by the last two rules. The generated id is what
  \<open>generateUniqueId\<close> returns for the clock reading and the random draw of the call, and
  it differs from the id of any call with another clock reading (of as many digits) or
  another draw. The result of a successful call and every event carry the resolved id.
\<close>

theorem fileId_resolution:
  "lib_resolve_fileId fileToUpload options env =
     (if id' fileToUpload \<noteq> None \<and> id' fileToUpload \<noteq> Some [] then the (id' fileToUpload)
      else if generateId (options_or_empty options) = Some False then name (file' fileToUpload)
      else generateUniqueId (ids env))
   \<and> (outcome (lib_S3StorageProvider_upload lc this fileToUpload options env) = Inr r
        \<longrightarrow> UploadResult.fileId r = lib_resolve_fileId fileToUpload options env)
   \<and> list_all (\<lambda>(c, ev). ProgressEvent.fileId ev = lib_resolve_fileId fileToUpload options env)
        (timers (lib_S3StorageProvider_upload lc this fileToUpload options env))
   \<and> resolve_fileId f options env =
     (if generateId (options_or_empty options) = Some False then name f
      else generateUniqueId (ids env))
   \<and> (outcome (S3StorageProvider_upload lc this f options env) = Inr r'
        \<longrightarrow> UploadResult.fileId r' = resolve_fileId f options env)
   \<and> list_all (\<lambda>(c, ev). ProgressEvent.fileId ev = resolve_fileId f options env)
        (timers (S3StorageProvider_upload lc this f options env))
   \<and> (length (dateNowBase36 (ids env)) = length (dateNowBase36 (ids env'))
        \<longrightarrow> (generateUniqueId (ids env) = generateUniqueId (ids env')
              \<longleftrightarrow> dateNowBase36 (ids env) = dateNowBase36 (ids env')
                  \<and> drop 2 (mathRandomBase36 (ids env)) = drop 2 (mathRandomBase36 (ids env'))))"
proof (intro conjI)
  show "lib_resolve_fileId fileToUpload options env =
     (if id' fileToUpload \<noteq> None \<and> id' fileToUpload \<noteq> Some [] then the (id' fileToUpload)
      else if generateId (options_or_empty options) = Some False then name (file' fileToUpload)
      else generateUniqueId (ids env))"
    by (auto simp: lib_resolve_fileId_def string_or_def with_default_def Let_def
        split: option.splits)
  show "outcome (lib_S3StorageProvider_upload lc this fileToUpload options env) = Inr r
        \<longrightarrow> UploadResult.fileId r = lib_resolve_fileId fileToUpload options env"
    by (auto simp: outcome_lib_upload split: sum.splits)
  show "list_all (\<lambda>(c, ev). ProgressEvent.fileId ev = lib_resolve_fileId fileToUpload options env)
        (timers (lib_S3StorageProvider_upload lc this fileToUpload options env))"
    using lib_timers_fileId [of _ _ lc this fileToUpload options env]
    by (auto simp: list_all_iff)
  show "resolve_fileId f options env =
     (if generateId (options_or_empty options) = Some False then name f
      else generateUniqueId (ids env))"
    by (auto simp: resolve_fileId_def with_default_def Let_def split: option.splits)
  show "outcome (S3StorageProvider_upload lc this f options env) = Inr r'
        \<longrightarrow> UploadResult.fileId r' = resolve_fileId f options env"
    by (auto simp: outcome_upload split: sum.splits)
  show "list_all (\<lambda>(c, ev). ProgressEvent.fileId ev = resolve_fileId f options env)
        (timers (S3StorageProvider_upload lc this f options env))"
    using timers_fileId [of _ _ lc this f options env]
    by (auto simp: list_all_iff)
  show "length (dateNowBase36 (ids env)) = length (dateNowBase36 (ids env'))
        \<longrightarrow> (generateUniqueId (ids env) = generateUniqueId (ids env')
              \<longleftrightarrow> dateNowBase36 (ids env) = dateNowBase36 (ids env')
                  \<and> drop 2 (mathRandomBase36 (ids env)) = drop 2 (mathRandomBase36 (ids env')))"
    using generateUniqueId_distinct [of "ids env" "ids env'"] by blast
qed

theorem fileId_resolution_witness:
  "lib_resolve_fileId example_fileToUpload (Some example_options) (env_fulfilled [] 5) = str ''id1''
   \<and> UploadResult.fileId
       (projr (outcome (lib_S3StorageProvider_upload toLowerCase_ascii example_provider
                          example_fileToUpload (Some example_options) (env_fulfilled [] 5))))
     = str ''id1''
   \<and> resolve_fileId example_file (Some example_options) (env_fulfilled [] 5) = str ''lx1k3''
   \<and> UploadResult.fileId
       (projr (outcome (S3StorageProvider_upload toLowerCase_ascii example_provider example_file
                          (Some example_options) (env_fulfilled [] 5))))
     = str ''lx1k3''
   \<and> generateUniqueId (ids (env_fulfilled [] 5))
       \<noteq> generateUniqueId (ids ((env_fulfilled [] 5)\<lparr>ids := example_ids_again\<rparr>))"
proof -
  let ?env = "env_fulfilled [] 5"
  let ?again = "(env_fulfilled [] 5)\<lparr>ids := example_ids_again\<rparr>"
  let ?old = "lib_S3StorageProvider_upload toLowerCase_ascii example_provider
                example_fileToUpload (Some example_options) ?env"
  let ?new = "S3StorageProvider_upload toLowerCase_ascii example_provider example_file
                (Some example_options) ?env"
  have old: "outcome ?old = Inr (projr (outcome ?old))"
    by (simp add: outcome_lib_upload env_fulfilled_def)
  have new: "outcome ?new = Inr (projr (outcome ?new))"
    by (simp add: outcome_upload env_fulfilled_def)
  have given:
    "id' example_fileToUpload = Some (str ''id1'')" "str ''id1'' \<noteq> []"
    "generateId (options_or_empty (Some example_options)) = None"
    "generateUniqueId (ids ?env) = str ''lx1k3''"
    by (simp_all add: example_fileToUpload_def example_options_def options_or_empty_def
        env_fulfilled_def example_ids_def generateUniqueId_def str_def)
  have draws:
    "length (dateNowBase36 (ids ?env)) = length (dateNowBase36 (ids ?again))"
    "drop 2 (mathRandomBase36 (ids ?env)) \<noteq> drop 2 (mathRandomBase36 (ids ?again))"
    by (simp_all add: env_fulfilled_def example_ids_def example_ids_again_def str_def)
  from old new given draws
    fileId_resolution [where fileToUpload = example_fileToUpload
      and options = "Some example_options" and env = ?env and env' = ?again
      and lc = toLowerCase_ascii and this = example_provider and f = example_file
      and r = "projr (outcome ?old)" and r' = "projr (outcome ?new)"]
  show ?thesis by simp
qed

subsection \<open>Several files\<close>

lemma started_nth:
  "i < length files \<Longrightarrow>
     map (\<lambda>(i, x). g x i) (enumerate 0 files) ! i = g (files ! i) i"
  by (simp add: nth_enumerate_eq)

lemma join_rejects:
  assumes started: "started = map (\<lambda>(i, x). g x i) (enumerate 0 files)"
    and some: "\<exists>i<length files. isl (outcome (g (files ! i) i))"
  shows "\<exists>e i. i < length files \<and> outcome (g (files ! i) i) = Inl e
           \<and> Promise_all (settlements started) = Inl e"
proof -
  have len: "length started = length files"
    by (simp add: started)
  have nth: "started ! i = g (files ! i) i" if "i < length files" for i
    unfolding started using that by (rule started_nth)
  from some obtain i where i: "i < length files" "isl (outcome (g (files ! i) i))"
    by blast
  then have "(settledAt (started ! i), outcome (started ! i)) \<in> set (settlements started)"
    using len by (auto simp: settlements_def)
  with i nth have "\<exists>p \<in> set (settlements started). isl (snd p)"
    by force
  from Promise_all_rejects [OF this] obtain t e
    where e: "Promise_all (settlements started) = Inl e"
      "(t, Inl e) \<in> set (settlements started)"
    by blast
  then obtain r where "r \<in> set started" "outcome r = Inl e"
    by (auto simp: settlements_def)
  then obtain j where "j < length files" "outcome (g (files ! j) j) = Inl e"
    using len nth by (metis in_set_conv_nth)
  with e show ?thesis by blast
qed

lemma join_fulfils:
  assumes started: "started = map (\<lambda>(i, x). g x i) (enumerate 0 files)"
    and all: "\<forall>i<length files. \<not> isl (outcome (g (files ! i) i))"
  shows "\<exists>rs. Promise_all (settlements started) = Inr rs \<and> length rs = length files
           \<and> (\<forall>i<length files. outcome (g (files ! i) i) = Inr (rs ! i))"
proof -
  have len: "length started = length files"
    by (simp add: started)
  have nth: "started ! i = g (files ! i) i" if "i < length files" for i
    unfolding started using that by (rule started_nth)
  have "\<forall>p \<in> set (settlements started). \<not> isl (snd p)"
    using all len nth by (auto simp: settlements_def in_set_conv_nth)
  from Promise_all_fulfils [OF this]
  have res: "Promise_all (settlements started) = Inr (fulfilled_values (settlements started))"
    and vals: "map snd (settlements started) = map Inr (fulfilled_values (settlements started))"
    by simp_all
  have outs: "map outcome started = map Inr (fulfilled_values (settlements started))"
    using vals by (simp add: settlements_def comp_def)
  then have l: "length (fulfilled_values (settlements started)) = length files"
    using len by (metis length_map)
  have "outcome (g (files ! i) i) = Inr (fulfilled_values (settlements started) ! i)"
    if "i < length files" for i
  proof -
    have "outcome (started ! i) = map outcome started ! i"
      using that len by simp
    also have "\<dots> = Inr (fulfilled_values (settlements started) ! i)"
      using that l by (simp add: outs)
    finally show ?thesis using nth [OF that] by simp
  qed
  with res l show ?thesis by blast
qed

text \<open>
  C5. A call on several files: if a constituent upload is rejected, so is the whole, with
  the error of a constituent, and no list of results is returned; if all constituents
  are fulfilled, the whole is fulfilled with one result for each file, in the order of the
  files. This holds for \<open>upload\<close> of \<open>core/uplifty\<close> (on a facade that has its provider)
  and for \<open>uploadMultiple\<close> of \<open>lib/uplifty\<close>.
\<close>

theorem uploadMultiple_all_or_nothing:
  "(storageProvider this = Some provider
      \<and> (\<exists>i<length files.
            isl (outcome (S3StorageProvider_upload lc provider (files ! i) options (envs i))))
    \<longrightarrow> (\<exists>e i. i < length files
           \<and> outcome (S3StorageProvider_upload lc provider (files ! i) options (envs i)) = Inl e
           \<and> result (Uplifty_upload lc this files options envs) = Inl e))
   \<and> (storageProvider this = Some provider
      \<and> (\<forall>i<length files.
            \<not> isl (outcome (S3StorageProvider_upload lc provider (files ! i) options (envs i))))
    \<longrightarrow> (\<exists>rs. result (Uplifty_upload lc this files options envs) = Inr rs
           \<and> length rs = length files
           \<and> (\<forall>i<length files.
                 outcome (S3StorageProvider_upload lc provider (files ! i) options (envs i))
                   = Inr (rs ! i))))
   \<and> ((\<exists>i<length files. isl (outcome (lib_Uplifty_upload lc this (files ! i) options (envs i))))
    \<longrightarrow> (\<exists>e i. i < length files
           \<and> outcome (lib_Uplifty_upload lc this (files ! i) options (envs i)) = Inl e
           \<and> result (lib_Uplifty_uploadMultiple lc this files options envs) = Inl e))
   \<and> ((\<forall>i<length files.
          \<not> isl (outcome (lib_Uplifty_upload lc this (files ! i) options (envs i))))
    \<longrightarrow> (\<exists>rs. result (lib_Uplifty_uploadMultiple lc this files options envs) = Inr rs
           \<and> length rs = length files
           \<and> (\<forall>i<length files.
                 outcome (lib_Uplifty_upload lc this (files ! i) options (envs i)) = Inr (rs ! i))))"
proof (intro conjI impI)
  let ?g = "\<lambda>x i. S3StorageProvider_upload lc provider x options (envs i)"
  let ?started = "map (\<lambda>(i, x). ?g x i) (enumerate 0 files)"
  {
    assume a: "storageProvider this = Some provider
      \<and> (\<exists>i<length files. isl (outcome (?g (files ! i) i)))"
    then have "files \<noteq> []" by auto
    with a have "result (Uplifty_upload lc this files options envs)
        = Promise_all (settlements ?started)"
      by (simp add: Uplifty_upload_def Let_def)
    with join_rejects [of ?started ?g files] a
    show "\<exists>e i. i < length files \<and> outcome (?g (files ! i) i) = Inl e
           \<and> result (Uplifty_upload lc this files options envs) = Inl e"
      by simp
  }
  {
    assume a: "storageProvider this = Some provider
      \<and> (\<forall>i<length files. \<not> isl (outcome (?g (files ! i) i)))"
    show "\<exists>rs. result (Uplifty_upload lc this files options envs) = Inr rs
           \<and> length rs = length files
           \<and> (\<forall>i<length files. outcome (?g (files ! i) i) = Inr (rs ! i))"
    proof (cases "files = []")
      case True
      with a show ?thesis by (simp add: Uplifty_upload_def Let_def)
    next
      case False
      with a have "result (Uplifty_upload lc this files options envs)
          = Promise_all (settlements ?started)"
        by (simp add: Uplifty_upload_def Let_def)
      with join_fulfils [of ?started ?g files] a show ?thesis by simp
    qed
  }
  let ?h = "\<lambda>x i. lib_Uplifty_upload lc this x options (envs i)"
  let ?lib = "map (\<lambda>(i, x). ?h x i) (enumerate 0 files)"
  have lib: "result (lib_Uplifty_uploadMultiple lc this files options envs)
      = Promise_all (settlements ?lib)"
    by (simp add: lib_Uplifty_uploadMultiple_def Let_def)
  {
    assume "\<exists>i<length files. isl (outcome (?h (files ! i) i))"
    with join_rejects [of ?lib ?h files] lib
    show "\<exists>e i. i < length files \<and> outcome (?h (files ! i) i) = Inl e
           \<and> result (lib_Uplifty_uploadMultiple lc this files options envs) = Inl e"
      by simp
  }
  {
    assume "\<forall>i<length files. \<not> isl (outcome (?h (files ! i) i))"
    with join_fulfils [of ?lib ?h files] lib
    show "\<exists>rs. result (lib_Uplifty_uploadMultiple lc this files options envs) = Inr rs
           \<and> length rs = length files
           \<and> (\<forall>i<length files. outcome (?h (files ! i) i) = Inr (rs ! i))"
      by simp
  }
qed

theorem uploadMultiple_all_or_nothing_witness:
  "result (Uplifty_upload toLowerCase_ascii example_facade example_files (Some example_options)
             example_envs) = Inl (ErrorInstance (str ''denied''))
   \<and> result (lib_Uplifty_uploadMultiple toLowerCase_ascii example_facade example_files
               (Some example_options) example_envs) = Inl (ErrorInstance (str ''denied''))
   \<and> length (projr (result (Uplifty_upload toLowerCase_ascii example_facade example_files
                              (Some example_options) (\<lambda>i. env_fulfilled [] (2 + i))))) = 2
   \<and> length (projr (result (lib_Uplifty_uploadMultiple toLowerCase_ascii example_facade
                              example_files (Some example_options)
                              (\<lambda>i. env_fulfilled [] (2 + i))))) = 2"
proof -
  let ?new = "\<lambda>envs i. S3StorageProvider_upload toLowerCase_ascii example_provider
                 (example_files ! i) (Some example_options) (envs i)"
  let ?old = "\<lambda>envs i. lib_Uplifty_upload toLowerCase_ascii example_facade
                 (example_files ! i) (Some example_options) (envs i) :: unit upload_run"
  let ?ok = "\<lambda>i. env_fulfilled [] (2 + i)"
  have provider: "storageProvider example_facade = Some example_provider"
    by (simp add: example_facade_def)
  have len: "length example_files = 2"
    by (simp add: example_files_def)
  have first: "\<not> isl (outcome (?new example_envs 0))" "\<not> isl (outcome (?old example_envs 0))"
    by (simp_all add: outcome_upload outcome_lib_upload lib_Uplifty_upload_def
        lib_Uplifty_uploadFile_def provider example_envs_def env_fulfilled_def)
  have second: "outcome (?new example_envs (Suc 0)) = Inl (ErrorInstance (str ''denied''))"
    "outcome (?old example_envs (Suc 0)) = Inl (ErrorInstance (str ''denied''))"
    by (simp_all add: outcome_upload outcome_lib_upload lib_Uplifty_upload_def
        lib_Uplifty_uploadFile_def provider example_envs_def env_rejected_def)
  have fine: "\<forall>i<length example_files. \<not> isl (outcome (?new ?ok i))"
    "\<forall>i<length example_files. \<not> isl (outcome (?old ?ok i))"
    by (simp_all add: outcome_upload outcome_lib_upload lib_Uplifty_upload_def
        lib_Uplifty_uploadFile_def provider env_fulfilled_def)
  have some: "\<exists>i<length example_files. isl (outcome (?new example_envs i))"
    "\<exists>i<length example_files. isl (outcome (?old example_envs i))"
    using second len by (auto intro!: exI [of _ "Suc 0"])
  note fails = uploadMultiple_all_or_nothing [where this = example_facade
      and provider = example_provider and files = example_files and lc = toLowerCase_ascii
      and options = "Some example_options" and envs = example_envs]
  note succeeds = uploadMultiple_all_or_nothing [where this = example_facade
      and provider = example_provider and files = example_files and lc = toLowerCase_ascii
      and options = "Some example_options" and envs = ?ok]
  from fails provider some(1) obtain e i where
    "i < length example_files" "outcome (?new example_envs i) = Inl e"
    "result (Uplifty_upload toLowerCase_ascii example_facade example_files
       (Some example_options) example_envs) = Inl e"
    by blast
  moreover from this len have "i = 0 \<or> i = Suc 0" by auto
  ultimately have a: "result (Uplifty_upload toLowerCase_ascii example_facade example_files
       (Some example_options) example_envs) = Inl (ErrorInstance (str ''denied''))"
    using first(1) second(1) by auto
  from fails some(2) obtain e i where
    "i < length example_files" "outcome (?old example_envs i) = Inl e"
    "result (lib_Uplifty_uploadMultiple toLowerCase_ascii example_facade example_files
       (Some example_options) example_envs) = Inl e"
    by blast
  moreover from this len have "i = 0 \<or> i = Suc 0" by auto
  ultimately have b: "result (lib_Uplifty_uploadMultiple toLowerCase_ascii example_facade
       example_files (Some example_options) example_envs) = Inl (ErrorInstance (str ''denied''))"
    using first(2) second(2) by auto
  from succeeds provider fine(1) obtain rs where
    "result (Uplifty_upload toLowerCase_ascii example_facade example_files
       (Some example_options) ?ok) = Inr rs" "length rs = length example_files"
    by blast
  with len have c: "length (projr (result (Uplifty_upload toLowerCase_ascii example_facade
       example_files (Some example_options) ?ok))) = 2"
    by simp
  from succeeds fine(2) obtain rs where
    "result (lib_Uplifty_uploadMultiple toLowerCase_ascii example_facade example_files
       (Some example_options) ?ok) = Inr rs" "length rs = length example_files"
    by blast
  with len have d: "length (projr (result (lib_Uplifty_uploadMultiple toLowerCase_ascii
       example_facade example_files (Some example_options) ?ok))) = 2"
    by simp
  from a b c d show ?thesis by blast
qed

subsection \<open>Progress reports\<close>

text \<open>
  C6. For a file of no bytes the SDK reports \<open>0\<close> of \<open>0\<close>. The listener of
  \<open>lib/s3Provider\<close> has no guard: it emits an \<open>UPLOADING\<close> event whose progress is
  \<open>Math.round((0 / 0) * 100)\<close>. The listener of \<open>providers/s3\<close> emits nothing for this
  report.
\<close>

theorem unguarded_progress:
  "timers (lib_S3StorageProvider_upload toLowerCase_ascii example_provider
             (example_fileToUpload\<lparr>file' := example_file\<lparr>File.size' := 0\<rparr>\<rparr>)
             (Some example_options)
             (env_fulfilled [\<lparr>loaded = Some 0, total = Some 0\<rparr>] 5))
     = [((), \<lparr>ProgressEvent.fileId = str ''id1'', ProgressEvent.fileName = str ''a.txt'',
              progress = Num 0, status = UPLOADING, error = None,
              ProgressEvent.url = None\<rparr>),
        ((), \<lparr>ProgressEvent.fileId = str ''id1'', ProgressEvent.fileName = str ''a.txt'',
              progress = RoundPercent (Some 0) (Some 0), status = UPLOADING, error = None,
              ProgressEvent.url = None\<rparr>),
        ((), \<lparr>ProgressEvent.fileId = str ''id1'', ProgressEvent.fileName = str ''a.txt'',
              progress = Num 100, status = COMPLETED, error = None,
              ProgressEvent.url = Some (str ''https://b.s3.eu.amazonaws.com/documents/a.txt'')\<rparr>)]
   \<and> timers (S3StorageProvider_upload toLowerCase_ascii example_provider
               (example_file\<lparr>File.size' := 0\<rparr>)
               (Some example_options)
               (env_fulfilled [\<lparr>loaded = Some 0, total = Some 0\<rparr>] 5))
     = [((), \<lparr>ProgressEvent.fileId = str ''lx1k3'', ProgressEvent.fileName = str ''a.txt'',
              progress = Num 0, status = UPLOADING, error = None,
              ProgressEvent.url = None\<rparr>),
        ((), \<lparr>ProgressEvent.fileId = str ''lx1k3'', ProgressEvent.fileName = str ''a.txt'',
              progress = Num 100, status = COMPLETED, error = None,
              ProgressEvent.url = Some (str ''https://b.s3.eu.amazonaws.com/documents/a.txt'')\<rparr>)]"
proof -
  let ?env = "env_fulfilled [\<lparr>loaded = Some 0, total = Some 0\<rparr>] 5"
  let ?ftu = "example_fileToUpload\<lparr>file' := example_file\<lparr>File.size' := 0\<rparr>\<rparr>"
  have settle: "completion (backend ?env p) = Inr None"
    "reports (backend ?env p) = [\<lparr>loaded = Some 0, total = Some 0\<rparr>]" for p
    by (simp_all add: env_fulfilled_def)
  have old: "lib_resolve_fileId ?ftu (Some example_options) ?env = str ''id1''"
    "lib_resolve_filePath toLowerCase_ascii ?ftu (Some example_options) = str ''documents/a.txt''"
    "name (file' ?ftu) = str ''a.txt''"
    using example_path(2)
    by (simp_all add: lib_resolve_fileId_def lib_resolve_filePath_def string_or_def
        options_or_empty_def example_fileToUpload_def example_options_def example_file_def
        str_def)
  have new: "name (example_file\<lparr>File.size' := 0\<rparr>) = str ''a.txt''"
    by (simp add: example_file_def)
  show ?thesis
    by (simp add: timers_lib_upload_fulfilled [OF example_callback(1) settle(1)]
        timers_upload_fulfilled [OF example_callback(1) settle(1)] settle(2) old new
        example_generated example_callback(2) example_path(2) example_url string_or_def
        lib_on_httpUploadProgress_def on_httpUploadProgress_def truthy_count_def
        notifyProgress_def)
qed

text \<open>
  In \<open>providers/s3\<close> every \<open>UPLOADING\<close> event is the initial one or comes from a report
  whose two counts are known and not zero, and carries the rounded percentage of the two;
  every such report makes its event.
\<close>

lemma progress_events_guarded:
  assumes "(c, ev) \<in> set (timers (S3StorageProvider_upload lc this f options env))"
    and "status ev = UPLOADING"
  shows "progress ev = Num 0
       \<or> (\<exists>p \<in> set (reports (backend env (upload_request lc this f options env))).
            \<exists>l t. loaded p = Some l \<and> total p = Some t \<and> l \<noteq> 0 \<and> t \<noteq> 0
              \<and> progress ev = RoundPercent (Some l) (Some t))"
proof (cases "onProgress (options_or_empty options)")
  case None
  with assms show ?thesis by (simp add: timers_upload_none)
next
  case (Some cb)
  show ?thesis
  proof (cases "completion (backend env (upload_request lc this f options env))")
    case (Inl err)
    with assms Some show ?thesis
      by (auto simp: timers_upload_rejected dest!: on_httpUploadProgress_guarded)
  next
    case (Inr location)
    with assms Some show ?thesis
      by (auto simp: timers_upload_fulfilled dest!: on_httpUploadProgress_guarded)
  qed
qed

lemma progress_events_complete:
  assumes "onProgress (options_or_empty options) = Some cb"
    and "p \<in> set (reports (backend env (upload_request lc this f options env)))"
    and "loaded p = Some l" "total p = Some t" "l \<noteq> 0" "t \<noteq> 0"
  shows "(cb, \<lparr>ProgressEvent.fileId = resolve_fileId f options env,
               ProgressEvent.fileName = name f, progress = RoundPercent (Some l) (Some t),
               status = UPLOADING, error = None, ProgressEvent.url = None\<rparr>)
         \<in> set (timers (S3StorageProvider_upload lc this f options env))"
proof -
  have "(cb, \<lparr>ProgressEvent.fileId = resolve_fileId f options env,
               ProgressEvent.fileName = name f, progress = RoundPercent (Some l) (Some t),
               status = UPLOADING, error = None, ProgressEvent.url = None\<rparr>)
         \<in> set (on_httpUploadProgress cb (resolve_fileId f options env) f p)"
    using assms(3-6)
    by (simp add: on_httpUploadProgress_def truthy_count_def notifyProgress_def)
  with assms(1,2) show ?thesis
    by (cases "completion (backend env (upload_request lc this f options env))")
      (auto simp: timers_upload_rejected timers_upload_fulfilled)
qed

subsection \<open>Callbacks that change what the provider shares with the caller\<close>

lemma outcome_upload_shared:
  "outcome (S3StorageProvider_upload_shared lc this f options env early) =
     (case completion (backend env (upload_request lc this f options env)) of
        Inl err \<Rightarrow> Inl err
      | Inr location \<Rightarrow>
          (let opts = options_or_empty options;
               fid = resolve_fileId f options env;
               queued =
                 (case onProgress opts of
                    None \<Rightarrow> []
                  | Some callback \<Rightarrow>
                      notifyProgress callback
                        \<lparr>ProgressEvent.fileId = fid, ProgressEvent.fileName = name f,
                         progress = Num 0, status = UPLOADING, error = None,
                         ProgressEvent.url = None\<rparr>
                      @ concat (map (on_httpUploadProgress callback fid f)
                          (reports (backend env (upload_request lc this f options env)))));
               settled = fire (take early queued)
                           (shared_at_call this f (UploadOptions.metadata opts))
           in Inr \<lparr>fileId = fid,
                   fileName = name (file_object settled),
                   url = string_or location
                           (constructS3Url (provider_at this settled)
                              (getFilePath lc f (folder opts))),
                   size' = File.size' (file_object settled),
                   mimeType = contentType_of lc this f,
                   metadata = Some (metadata_at (UploadOptions.metadata opts) settled)\<rparr>))"
  by (simp add: S3StorageProvider_upload_shared_def Let_def split: sum.splits option.splits)

lemma outcome_lib_upload_shared:
  "outcome (lib_S3StorageProvider_upload_shared lc this fileToUpload options env early) =
     (case completion (backend env (lib_upload_request lc this fileToUpload options env)) of
        Inl err \<Rightarrow> Inl err
      | Inr location \<Rightarrow>
          (let opts = options_or_empty options;
               fid = lib_resolve_fileId fileToUpload options env;
               queued =
                 (case onProgress opts of
                    None \<Rightarrow> []
                  | Some callback \<Rightarrow>
                      notifyProgress callback
                        \<lparr>ProgressEvent.fileId = fid,
                         ProgressEvent.fileName = name (file' fileToUpload),
                         progress = Num 0, status = UPLOADING, error = None,
                         ProgressEvent.url = None\<rparr>
                      @ concat (map (lib_on_httpUploadProgress callback fid (file' fileToUpload))
                          (reports (backend env
                             (lib_upload_request lc this fileToUpload options env)))));
               settled = fire (take early queued)
                           (shared_at_call this (file' fileToUpload) (FileToUpload.metadata fileToUpload))
           in Inr \<lparr>fileId = fid,
                   fileName = name (file_object settled),
                   url = string_or location
                           (constructS3Url (provider_at this settled)
                              (lib_resolve_filePath lc fileToUpload options)),
                   size' = File.size' (file_object settled),
                   mimeType = contentType_of lc this (file' fileToUpload),
                   metadata =
                     Some (metadata_at (FileToUpload.metadata fileToUpload) settled)\<rparr>))"
  by (simp add: lib_S3StorageProvider_upload_shared_def Let_def
      split: sum.splits option.splits)

lemma fire_unchanged:
  "\<forall>(c, ev) \<in> set ts. c ev s = s \<Longrightarrow> fire ts s = s"
  by (induction ts) (auto simp: fire_def)

lemma queued_callback:
  "(c, ev) \<in> set (on_httpUploadProgress cb fid f p) \<Longrightarrow> c = cb"
  "(c, ev) \<in> set (lib_on_httpUploadProgress cb fid f p) \<Longrightarrow> c = cb"
  by (auto simp: on_httpUploadProgress_def lib_on_httpUploadProgress_def notifyProgress_def
      Let_def split: if_splits)

lemma provider_at_call: "provider_at this (shared_at_call this f given) = this"
  by (simp add: provider_at_def shared_at_call_def)

lemma file_at_call: "file_object (shared_at_call this f given) = f"
  by (simp add: shared_at_call_def)

lemma metadata_at_call:
  "metadata_at given (shared_at_call this f given) = with_default Map.empty given"
  by (simp add: metadata_at_def shared_at_call_def with_default_def split: option.splits)

text \<open>
  With no callback, or with one that leaves the shared objects as they are, the call
  settles as the definitions without shared objects say.
\<close>

lemma settled_unchanged:
  assumes "given = None \<or> (\<exists>cb. given = Some cb \<and> (\<forall>ev s. cb ev s = s))"
  shows "fire (take early
           (case given of
              None \<Rightarrow> []
            | Some callback \<Rightarrow>
                notifyProgress callback ev0
                @ concat (map (on_httpUploadProgress callback fid f) rs))) s = s"
    and "fire (take early
           (case given of
              None \<Rightarrow> []
            | Some callback \<Rightarrow>
                notifyProgress callback ev0
                @ concat (map (lib_on_httpUploadProgress callback fid f) rs))) s = s"
proof -
  show "fire (take early
           (case given of
              None \<Rightarrow> []
            | Some callback \<Rightarrow>
                notifyProgress callback ev0
                @ concat (map (on_httpUploadProgress callback fid f) rs))) s = s"
  proof (rule fire_unchanged, clarify)
    fix c ev
    assume "(c, ev) \<in> set (take early
           (case given of
              None \<Rightarrow> []
            | Some callback \<Rightarrow>
                notifyProgress callback ev0
                @ concat (map (on_httpUploadProgress callback fid f) rs)))"
    then have "(c, ev) \<in> set
           (case given of
              None \<Rightarrow> []
            | Some callback \<Rightarrow>
                notifyProgress callback ev0
                @ concat (map (on_httpUploadProgress callback fid f) rs))"
      by (rule in_set_takeD)
    with assms show "c ev s = s"
      by (auto simp: notifyProgress_def dest: queued_callback(1))
  qed
  show "fire (take early
           (case given of
              None \<Rightarrow> []
            | Some callback \<Rightarrow>
                notifyProgress callback ev0
                @ concat (map (lib_on_httpUploadProgress callback fid f) rs))) s = s"
  proof (rule fire_unchanged, clarify)
    fix c ev
    assume "(c, ev) \<in> set (take early
           (case given of
              None \<Rightarrow> []
            | Some callback \<Rightarrow>
                notifyProgress callback ev0
                @ concat (map (lib_on_httpUploadProgress callback fid f) rs)))"
    then have "(c, ev) \<in> set
           (case given of
              None \<Rightarrow> []
            | Some callback \<Rightarrow>
                notifyProgress callback ev0
                @ concat (map (lib_on_httpUploadProgress callback fid f) rs))"
      by (rule in_set_takeD)
    with assms show "c ev s = s"
      by (auto simp: notifyProgress_def dest: queued_callback(2))
  qed
qed

lemma shared_agrees:
  assumes "onProgress (options_or_empty options) = None
           \<or> (\<exists>cb. onProgress (options_or_empty options) = Some cb \<and> (\<forall>ev s. cb ev s = s))"
  shows "outcome (S3StorageProvider_upload_shared lc this f options env early)
           = outcome (S3StorageProvider_upload lc this f options env)"
    and "outcome (lib_S3StorageProvider_upload_shared lc this fileToUpload options env early)
           = outcome (lib_S3StorageProvider_upload lc this fileToUpload options env)"
  by (simp_all add: outcome_upload_shared outcome_upload outcome_lib_upload_shared
      outcome_lib_upload Let_def settled_unchanged [OF assms] provider_at_call
      metadata_at_call file_at_call split: sum.splits)


lemma shared_request_ignores_callback:
  "resolve_fileId f (Some (opts\<lparr>onProgress := a\<rparr>)) env = resolve_fileId f (Some opts) env"
  "lib_resolve_fileId fileToUpload (Some (opts\<lparr>onProgress := a\<rparr>)) env
     = lib_resolve_fileId fileToUpload (Some opts) env"
  "lib_resolve_filePath lc fileToUpload (Some (opts\<lparr>onProgress := a\<rparr>))
     = lib_resolve_filePath lc fileToUpload (Some opts)"
  by (simp_all add: resolve_fileId_def lib_resolve_fileId_def lib_resolve_filePath_def
      options_or_empty_def)

text \<open>
  C10, as stated, fails. The callback below sets the bucket of the caller's \<open>s3\<close> object.
  Called for the initial event while the transfer is under way, it changes the url that
  the provider builds after the transfer, when the backend reports no \<open>Location\<close>: the
  result differs from that of the same call without a callback.
\<close>

theorem callback_changes_url:
  "outcome (S3StorageProvider_upload_shared toLowerCase_ascii example_provider example_file
              (Some (example_options_with (Some example_rebucket))) (env_fulfilled [] 5) 1)
     = Inr \<lparr>fileId = str ''lx1k3'', fileName = str ''a.txt'',
            url = str ''https://evil.s3.eu.amazonaws.com/documents/a.txt'', size' = 3,
            mimeType = JString (str ''text/plain''), metadata = Some example_metadata\<rparr>
   \<and> outcome (S3StorageProvider_upload_shared toLowerCase_ascii example_provider example_file
              (Some (example_options_with None)) (env_fulfilled [] 5) 1)
     = Inr \<lparr>fileId = str ''lx1k3'', fileName = str ''a.txt'',
            url = str ''https://b.s3.eu.amazonaws.com/documents/a.txt'', size' = 3,
            mimeType = JString (str ''text/plain''), metadata = Some example_metadata\<rparr>"
proof -
  have settle: "completion (backend (env_fulfilled [] 5) p) = Inr None"
    "reports (backend (env_fulfilled [] 5) p) = []" for p
    by (simp_all add: env_fulfilled_def)
  have given: "onProgress (options_or_empty (Some (example_options_with g))) = g"
    "folder (options_or_empty (Some (example_options_with g))) = None"
    "UploadOptions.metadata (options_or_empty (Some (example_options_with g)))
       = Some example_metadata"
    "resolve_fileId example_file (Some (example_options_with g)) (env_fulfilled [] 5)
       = str ''lx1k3''" for g
    by (simp_all add: options_or_empty_def example_options_with_def resolve_fileId_def
        with_default_def generateUniqueId_def env_fulfilled_def example_ids_def str_def)
  have named: "name example_file = str ''a.txt''" "File.size' example_file = 3"
    by (simp_all add: example_file_def)
  have evil: "constructS3Url
      (provider_at example_provider
         (example_rebucket ev (shared_at_call example_provider example_file (Some example_metadata))))
      (str ''documents/a.txt'')
      = str ''https://evil.s3.eu.amazonaws.com/documents/a.txt''" for ev
    by (simp add: constructS3Url_def provider_at_def example_rebucket_def shared_at_call_def
        example_provider_def S3StorageProvider_new_def example_config_def str_def)
  have same: "file_object
      (example_rebucket ev (shared_at_call example_provider example_file (Some example_metadata)))
      = example_file" for ev
    by (simp add: example_rebucket_def shared_at_call_def)
  have meta: "metadata_at (Some example_metadata)
      (example_rebucket ev (shared_at_call example_provider example_file (Some example_metadata)))
      = example_metadata" for ev
    by (simp add: metadata_at_def example_rebucket_def shared_at_call_def with_default_def)
  show ?thesis
    by (simp add: outcome_upload_shared settle given named Let_def notifyProgress_def fire_def
        evil meta same provider_at_call metadata_at_call file_at_call with_default_def example_path(1)
        example_contentType(1) example_url string_or_def)
qed

text \<open>
  C10, amended. With the file, the other options, the generated id and the backend fixed:
  a call with a callback that leaves the objects it shares with the provider unchanged
  settles as the call without a callback does, with the same result or the same error;
  and whatever the callback does, the error of a failed call and the \<open>fileId\<close> and
  \<open>mimeType\<close> of a result are those of the call without a callback. This holds for both
  providers.
\<close>

theorem callback_influence:
  "((\<forall>ev s. cb ev s = s) \<longrightarrow>
      outcome (S3StorageProvider_upload_shared lc this f
                 (Some (opts\<lparr>onProgress := Some cb\<rparr>)) env early)
        = outcome (S3StorageProvider_upload_shared lc this f
                 (Some (opts\<lparr>onProgress := None\<rparr>)) env early))
   \<and> map_sum (\<lambda>e. e)
         (\<lambda>r. (UploadResult.fileId r, mimeType r))
         (outcome (S3StorageProvider_upload_shared lc this f
                     (Some (opts\<lparr>onProgress := Some cb\<rparr>)) env early))
       = map_sum (\<lambda>e. e)
         (\<lambda>r. (UploadResult.fileId r, mimeType r))
         (outcome (S3StorageProvider_upload_shared lc this f
                     (Some (opts\<lparr>onProgress := None\<rparr>)) env early))
   \<and> ((\<forall>ev s. cb ev s = s) \<longrightarrow>
      outcome (lib_S3StorageProvider_upload_shared lc this fileToUpload
                 (Some (opts\<lparr>onProgress := Some cb\<rparr>)) env early)
        = outcome (lib_S3StorageProvider_upload_shared lc this fileToUpload
                 (Some (opts\<lparr>onProgress := None\<rparr>)) env early))
   \<and> map_sum (\<lambda>e. e)
         (\<lambda>r. (UploadResult.fileId r, mimeType r))
         (outcome (lib_S3StorageProvider_upload_shared lc this fileToUpload
                     (Some (opts\<lparr>onProgress := Some cb\<rparr>)) env early))
       = map_sum (\<lambda>e. e)
         (\<lambda>r. (UploadResult.fileId r, mimeType r))
         (outcome (lib_S3StorageProvider_upload_shared lc this fileToUpload
                     (Some (opts\<lparr>onProgress := None\<rparr>)) env early))"
proof (intro conjI impI)
  have req: "upload_request lc this f (Some (opts\<lparr>onProgress := Some cb\<rparr>)) env
          = upload_request lc this f (Some (opts\<lparr>onProgress := None\<rparr>)) env"
    by (rule upload_request_ignores_callback)
  have lib_req:
    "lib_upload_request lc this fileToUpload (Some (opts\<lparr>onProgress := Some cb\<rparr>)) env
       = lib_upload_request lc this fileToUpload (Some (opts\<lparr>onProgress := None\<rparr>)) env"
    by (rule lib_upload_request_ignores_callback)
  have none: "onProgress (options_or_empty (Some (opts\<lparr>onProgress := None\<rparr>))) = None
      \<or> (\<exists>c. onProgress (options_or_empty (Some (opts\<lparr>onProgress := None\<rparr>))) = Some c
            \<and> (\<forall>ev s. c ev s = s))"
    by (simp add: options_or_empty_def)
  have pure: "outcome (S3StorageProvider_upload lc this f
                 (Some (opts\<lparr>onProgress := Some cb\<rparr>)) env)
        = outcome (S3StorageProvider_upload lc this f (Some (opts\<lparr>onProgress := None\<rparr>)) env)"
    using req
    by (simp add: outcome_upload shared_request_ignores_callback options_or_empty_def
        split: sum.splits)
  have lib_pure: "outcome (lib_S3StorageProvider_upload lc this fileToUpload
                 (Some (opts\<lparr>onProgress := Some cb\<rparr>)) env)
        = outcome (lib_S3StorageProvider_upload lc this fileToUpload
                 (Some (opts\<lparr>onProgress := None\<rparr>)) env)"
    using lib_req
    by (simp add: outcome_lib_upload shared_request_ignores_callback split: sum.splits)
  {
    assume unchanged: "\<forall>ev s. cb ev s = s"
    then have some:
      "onProgress (options_or_empty (Some (opts\<lparr>onProgress := Some cb\<rparr>))) = None
       \<or> (\<exists>c. onProgress (options_or_empty (Some (opts\<lparr>onProgress := Some cb\<rparr>))) = Some c
             \<and> (\<forall>ev s. c ev s = s))"
      by (simp add: options_or_empty_def)
    show "outcome (S3StorageProvider_upload_shared lc this f
                 (Some (opts\<lparr>onProgress := Some cb\<rparr>)) env early)
        = outcome (S3StorageProvider_upload_shared lc this f
                 (Some (opts\<lparr>onProgress := None\<rparr>)) env early)"
      using pure by (simp add: shared_agrees(1) [OF some] shared_agrees(1) [OF none])
    show "outcome (lib_S3StorageProvider_upload_shared lc this fileToUpload
                 (Some (opts\<lparr>onProgress := Some cb\<rparr>)) env early)
        = outcome (lib_S3StorageProvider_upload_shared lc this fileToUpload
                 (Some (opts\<lparr>onProgress := None\<rparr>)) env early)"
      using lib_pure by (simp add: shared_agrees(2) [OF some] shared_agrees(2) [OF none])
  }
  show "map_sum (\<lambda>e. e)
         (\<lambda>r. (UploadResult.fileId r, mimeType r))
         (outcome (S3StorageProvider_upload_shared lc this f
                     (Some (opts\<lparr>onProgress := Some cb\<rparr>)) env early))
       = map_sum (\<lambda>e. e)
         (\<lambda>r. (UploadResult.fileId r, mimeType r))
         (outcome (S3StorageProvider_upload_shared lc this f
                     (Some (opts\<lparr>onProgress := None\<rparr>)) env early))"
    using req
    by (simp add: outcome_upload_shared shared_request_ignores_callback Let_def
        split: sum.splits)
  show "map_sum (\<lambda>e. e)
         (\<lambda>r. (UploadResult.fileId r, mimeType r))
         (outcome (lib_S3StorageProvider_upload_shared lc this fileToUpload
                     (Some (opts\<lparr>onProgress := Some cb\<rparr>)) env early))
       = map_sum (\<lambda>e. e)
         (\<lambda>r. (UploadResult.fileId r, mimeType r))
         (outcome (lib_S3StorageProvider_upload_shared lc this fileToUpload
                     (Some (opts\<lparr>onProgress := None\<rparr>)) env early))"
    using lib_req
    by (simp add: outcome_lib_upload_shared shared_request_ignores_callback Let_def
        split: sum.splits)
qed

theorem callback_influence_witness:
  "outcome (S3StorageProvider_upload_shared toLowerCase_ascii example_provider example_file
              (Some ((example_options_with None)\<lparr>onProgress := Some example_passive\<rparr>))
              (env_fulfilled [\<lparr>loaded = Some 2, total = Some 4\<rparr>] 5) 2)
     = outcome (S3StorageProvider_upload_shared toLowerCase_ascii example_provider example_file
              (Some ((example_options_with None)\<lparr>onProgress := None\<rparr>))
              (env_fulfilled [\<lparr>loaded = Some 2, total = Some 4\<rparr>] 5) 2)
   \<and> outcome (lib_S3StorageProvider_upload_shared toLowerCase_ascii example_provider
              example_fileToUpload
              (Some ((example_options_with None)\<lparr>onProgress := Some example_passive\<rparr>))
              (env_fulfilled [\<lparr>loaded = Some 2, total = Some 4\<rparr>] 5) 2)
     = outcome (lib_S3StorageProvider_upload_shared toLowerCase_ascii example_provider
              example_fileToUpload
              (Some ((example_options_with None)\<lparr>onProgress := None\<rparr>))
              (env_fulfilled [\<lparr>loaded = Some 2, total = Some 4\<rparr>] 5) 2)"
proof -
  have unchanged: "\<forall>ev s. example_passive ev s = s"
    by (simp add: example_passive_def)
  from unchanged
    callback_influence [where cb = example_passive and opts = "example_options_with None"
      and lc = toLowerCase_ascii and this = example_provider and f = example_file
      and fileToUpload = example_fileToUpload
      and env = "env_fulfilled [\<lparr>loaded = Some 2, total = Some 4\<rparr>] 5" and early = 2]
  show ?thesis by blast
qed

end
